theory Spec2Isabelle
  imports Complex_Main "HOL-Library.Log_Nat" "HOL-Library.Word"
begin

section \<open>The stat-collector program (main.go) as HOL functions\<close>

text \<open>
  The program reads a duration and an optional end date from the command line, lists the
  mesh members, asks Graylog for each member's uploaded and downloaded bytes in the time
  window, and stores one bandwidth usage period per active member in MongoDB.

  The model follows main.go function by function. Effects are explicit: every function
  that talks to the outside returns the list of events it caused, in order, and a result;
  \<open>log.Fatal\<close> and a runtime panic are results, not exceptions. What the Go standard library
  and the three services answer is not part of the repository: it is a parameter of the
  model, the record \<open>world\<close>, so that every theorem holds for whatever they answer.
  A world answers a call as a function of its arguments: the same request gets the same
  answer throughout a run. The function \<open>init\<close> of main.go loads a \<open>.env\<close> file before
  \<open>main\<close> starts; it only changes what \<open>os.Getenv\<close> answers.
\<close>

subsection \<open>float64\<close>

text \<open>
  A Go \<open>float64\<close> is an IEEE 754 binary64 value. The model keeps the value of a finite
  number as a rational, the two infinities and NaN. It does not keep the sign of a zero
  or the payload of a NaN: equality on \<open>Finite\<close> values is Go's \<open>==\<close>.

  Arithmetic rounds to nearest, ties to even (the only mode Go uses): the exact result is
  rounded to a multiple of the unit in the last place of its binade (53 significant bits,
  smallest unit \<open>2 powi -1074\<close>), and a rounded magnitude of \<open>2 ^ 1024\<close> or more is an
  infinity.
\<close>

datatype float64 = Finite rat | PosInf | NegInf | NaN

definition overflow_bound :: rat where
  "overflow_bound = 2 ^ 1024"

text \<open>\<open>ilog2 q\<close> is the exponent \<open>k\<close> with \<open>2 powi k \<le> q < 2 powi (k + 1)\<close>, for \<open>q > 0\<close>.\<close>

definition ilog2 :: "rat \<Rightarrow> int" where
  "ilog2 q = (let k = bitlen (fst (quotient_of q)) - bitlen (snd (quotient_of q))
              in if 2 powi k \<le> q then k else k - 1)"

text \<open>Rounding a rational to the nearest integer, a tie to the even neighbour.\<close>

definition rne :: "rat \<Rightarrow> int" where
  "rne x = (let f = \<lfloor>x\<rfloor>; r = x - of_int f
            in if r < 1 / 2 then f else if 1 / 2 < r then f + 1
               else if even f then f else f + 1)"

text \<open>The exponent of the unit in the last place of a non-zero value.\<close>

definition ulp_exp :: "rat \<Rightarrow> int" where
  "ulp_exp q = max (ilog2 \<bar>q\<bar> - 52) (- 1074)"

definition round64 :: "rat \<Rightarrow> float64" where
  "round64 q =
     (if q = 0 then Finite 0
      else let e = ulp_exp q;
               v = of_int (rne (q / 2 powi e)) * 2 powi e
           in if overflow_bound \<le> \<bar>v\<bar> then (if 0 < q then PosInf else NegInf)
              else Finite v)"

text \<open>The values a \<open>float64\<close> variable can hold: a finite one is its own rounding.\<close>

fun is_float64 :: "float64 \<Rightarrow> bool" where
  "is_float64 (Finite q) = (round64 q = Finite q)"
| "is_float64 x = True"

text \<open>Go's \<open>+\<close> on float64.\<close>

fun fadd :: "float64 \<Rightarrow> float64 \<Rightarrow> float64" where
  "fadd NaN y = NaN"
| "fadd x NaN = NaN"
| "fadd PosInf NegInf = NaN"
| "fadd NegInf PosInf = NaN"
| "fadd PosInf y = PosInf"
| "fadd x PosInf = PosInf"
| "fadd NegInf y = NegInf"
| "fadd x NegInf = NegInf"
| "fadd (Finite a) (Finite b) = round64 (a + b)"

text \<open>
  Go's \<open>/\<close> on float64. A zero divisor has no sign here, so a non-zero value divided by
  zero is given the sign of the dividend (the divisor \<open>+0\<close>); the program divides by the
  constant 1000000000 only.
\<close>

fun fdiv :: "float64 \<Rightarrow> float64 \<Rightarrow> float64" where
  "fdiv NaN y = NaN"
| "fdiv x NaN = NaN"
| "fdiv PosInf PosInf = NaN"
| "fdiv PosInf NegInf = NaN"
| "fdiv NegInf PosInf = NaN"
| "fdiv NegInf NegInf = NaN"
| "fdiv PosInf (Finite b) = (if 0 \<le> b then PosInf else NegInf)"
| "fdiv NegInf (Finite b) = (if 0 \<le> b then NegInf else PosInf)"
| "fdiv (Finite a) PosInf = Finite 0"
| "fdiv (Finite a) NegInf = Finite 0"
| "fdiv (Finite a) (Finite b) =
     (if b = 0 then (if a = 0 then NaN else if 0 < a then PosInf else NegInf)
      else round64 (a / b))"

subsection \<open>time.Time and time.Duration\<close>

text \<open>
  A \<open>time.Duration\<close> is an int64 count of nanoseconds: a 64-bit word read by \<open>sint\<close>, so
  that the unary minus of main.go wraps as Go's does. A \<open>time.Time\<close> is an instant, kept
  as nanoseconds since the Unix epoch; Go's range of instants (hundreds of billions of
  years) is not modelled. Nor is the location of a time (UTC for a parsed date, the
  local zone for the current time): within a run every time has the location of \<open>To\<close>,
  and what \<open>Format\<close> writes for a time is a parameter of the model.
\<close>

type_synonym Duration = "64 word"
type_synonym Time = int

definition Add :: "Time \<Rightarrow> Duration \<Rightarrow> Time" where
  "Add t d = t + sint d"

text \<open>The zero \<open>time.Time\<close>, January 1 of year 1, which \<open>time.Parse\<close> returns with an error.\<close>

definition zeroTime :: Time where
  "zeroTime = - 62135596800 * 1000000000"

text \<open>
  Midnight UTC of a calendar date, as \<open>time.Date(y, m, d, 0, 0, 0, 0, time.UTC)\<close> gives it
  (days since 1970-01-01 in the proleptic Gregorian calendar, times the nanoseconds of
  a day). It is used to write instants down as dates.
\<close>

definition civil :: "int \<Rightarrow> int \<Rightarrow> int \<Rightarrow> Time" where
  "civil y m d =
     (let y' = (if m \<le> 2 then y - 1 else y);
          era = y' div 400;
          yoe = y' - era * 400;
          doy = (153 * (if 2 < m then m - 3 else m + 9) + 2) div 5 + d - 1;
          doe = yoe * 365 + yoe div 4 - yoe div 100 + doy
      in (era * 146097 + doe - 719468) * 86400 * 1000000000)"

subsection \<open>The data of main.go\<close>

record Settings =
  AirtableAPIKey :: string
  AirtableBaseID :: string
  AirtableTableName :: string
  GraylogURL :: string
  GraylogUser :: string
  GraylogPass :: string
  From :: Time
  To :: Time
  Duration :: Duration
  MongoDatabase :: string
  MongoCollection :: string
  MongoURL :: string

record MeshMemberFields =
  Name :: string
  WGKey :: string
  Upstream :: "string list"

record MeshMember =
  ID :: string
  Fields :: MeshMemberFields

text \<open>The three sums are \<open>*float64\<close> in Go: \<open>None\<close> is the nil pointer.\<close>

record BandwidthUsagePeriod =
  Name :: string
  From :: Time
  To :: Time
  Duration :: Duration
  Up :: "float64 option"
  Down :: "float64 option"
  Total :: "float64 option"

subsection \<open>The outside world\<close>

text \<open>
  The request \<open>callGraylog\<close> sends: the base URL, the basic-auth pair and the four query
  parameters, \<open>from\<close> and \<open>to\<close> as the texts \<open>Format\<close> returns.
\<close>

record request =
  req_url :: string
  req_user :: string
  req_pass :: string
  req_field :: string
  req_query :: string
  req_from :: string
  req_to :: string

text \<open>
  What main.go calls and does not define. A Go function returning \<open>(value, error)\<close> is a
  pair with an optional error text; one returning only an error, an optional error text.
  \<^item> \<open>parseDuration\<close>: \<open>time.ParseDuration\<close>;
  \<^item> \<open>parseTime\<close>: \<open>time.Parse\<close>, of a layout and a value;
  \<^item> \<open>now\<close>: \<open>time.Now\<close>;
  \<^item> \<open>formatTime\<close>: \<open>t.Format(layout)\<close>, of a time and a layout: the digits of the time
    on the wall clock of its location, as the layout asks for them;
  \<^item> \<open>getenv\<close>: \<open>os.Getenv\<close>;
  \<^item> \<open>trimSpace\<close>: \<open>strings.TrimSpace\<close>;
  \<^item> \<open>airtableNew\<close>: \<open>airtable.New\<close>, of the API key and the base;
  \<^item> \<open>listRecords\<close>: \<open>client.ListRecords\<close>, of the key, the base and the table: an error
    or the records;
  \<^item> \<open>mongoConnect\<close>: \<open>mongo.Connect\<close>, of the URL;
  \<^item> \<open>newRequest\<close>: \<open>http.NewRequest\<close>;
  \<^item> \<open>httpGet\<close>: \<open>graylogClient.Do\<close> and \<open>ioutil.ReadAll\<close>: an error or the body;
  \<^item> \<open>jsonUnmarshal\<close>: \<open>json.Unmarshal\<close> into a \<open>GraylogRes\<close>: the error it returns and
    the field \<open>Sum\<close> afterwards;
  \<^item> \<open>insertOne\<close>: \<open>bwupCollection.InsertOne\<close>.
\<close>

record world =
  parseDuration :: "string \<Rightarrow> Duration \<times> string option"
  parseTime :: "string \<Rightarrow> string \<Rightarrow> Time \<times> string option"
  now :: Time
  formatTime :: "Time \<Rightarrow> string \<Rightarrow> string"
  getenv :: "string \<Rightarrow> string"
  trimSpace :: "string \<Rightarrow> string"
  airtableNew :: "string \<Rightarrow> string \<Rightarrow> string option"
  listRecords :: "string \<Rightarrow> string \<Rightarrow> string \<Rightarrow> string + MeshMember list"
  mongoConnect :: "string \<Rightarrow> string option"
  newRequest :: "request \<Rightarrow> string option"
  httpGet :: "request \<Rightarrow> string + string"
  jsonUnmarshal :: "string \<Rightarrow> string option \<times> float64 option"
  insertOne :: "BandwidthUsagePeriod \<Rightarrow> string option"

text \<open>What a run does, in order, and how the process ends.\<close>

datatype event =
    PrintSettings Settings
  | PrintError string
  | PrintPeriod BandwidthUsagePeriod
  | AirtableList string
  | MongoConnect string
  | GraylogGet request
  | InsertOne BandwidthUsagePeriod

datatype exit =
    Done
  | Fatal string
  | PanicIndexOutOfRange nat nat

fun isNetwork :: "event \<Rightarrow> bool" where
  "isNetwork (AirtableList t) = True"
| "isNetwork (MongoConnect u) = True"
| "isNetwork (GraylogGet r) = True"
| "isNetwork (InsertOne p) = True"
| "isNetwork e = False"

subsection \<open>bytesToGb and callGraylog\<close>

definition bytesToGb :: "float64 \<Rightarrow> float64" where
  "bytesToGb bytes = fdiv bytes (Finite 1000000000)"

text \<open>
  \<open>bytes.Replace(s, old, new, -1)\<close> for a non-empty \<open>old\<close>: every occurrence, left to
  right, without overlap. The counter is the number of bytes of a replaced occurrence
  still to skip.
\<close>

fun replaceFrom :: "nat \<Rightarrow> string \<Rightarrow> string \<Rightarrow> string \<Rightarrow> string" where
  "replaceFrom n old new [] = []"
| "replaceFrom n old new (c # cs) =
     (if 0 < n then replaceFrom (n - 1) old new cs
      else if old \<noteq> [] \<and> take (length old) (c # cs) = old
           then new @ replaceFrom (length old - 1) old new cs
           else c # replaceFrom 0 old new cs)"

definition Replace :: "string \<Rightarrow> string \<Rightarrow> string \<Rightarrow> string" where
  "Replace s old new = replaceFrom 0 old new s"

definition quote :: string where
  "quote = [CHR 0x22]"

text \<open>
  Lines 73 to 98 of \<open>callGraylog\<close>: the request, for a direction that is \<open>up\<close> or
  \<open>down\<close>. The window goes into it as two texts, \<open>settings.From\<close> and \<open>settings.To\<close>
  formatted with the layout \<open>2006-01-2T15:04:05.000Z\<close>.
\<close>

definition graylogRequest :: "world \<Rightarrow> Settings \<Rightarrow> string \<Rightarrow> string \<Rightarrow> request" where
  "graylogRequest w settings direction wgKey =
     (let directionString =
            (if direction = ''up'' then ''uploaded to exit'' else ''downloaded from exit'')
      in \<lparr>req_url = GraylogURL settings @ ''api/search/universal/absolute/stats?'',
          req_user = GraylogUser settings,
          req_pass = GraylogPass settings,
          req_field = ''bytes'',
          req_query = quote @ wgKey @ quote @ '' AND '' @ quote @ directionString @ quote,
          req_from = formatTime w (Settings.From settings) ''2006-01-2T15:04:05.000Z'',
          req_to = formatTime w (Settings.To settings) ''2006-01-2T15:04:05.000Z''\<rparr>)"

text \<open>
  \<open>callGraylog\<close>: the events and either the text of \<open>log.Fatal\<close> or the returned pointer.
  An error of \<open>json.Unmarshal\<close> is printed and the function goes on with the \<open>Sum\<close> the
  decoder left.
\<close>

definition callGraylog ::
  "world \<Rightarrow> Settings \<Rightarrow> string \<Rightarrow> string \<Rightarrow> event list \<times> (string + float64 option)" where
  "callGraylog w settings direction wgKey =
     (if direction \<noteq> ''up'' \<and> direction \<noteq> ''down''
      then ([], Inl ''invalid direction argument'')
      else
        let req = graylogRequest w settings direction wgKey
        in case newRequest w req of
             Some err \<Rightarrow> ([], Inl err)
           | None \<Rightarrow>
               (case httpGet w req of
                  Inl err \<Rightarrow> ([GraylogGet req], Inl err)
                | Inr bodyText \<Rightarrow>
                    (case jsonUnmarshal w (Replace bodyText (quote @ ''NaN'' @ quote) ''null'') of
                       (err, graylogResSum) \<Rightarrow>
                         (GraylogGet req #
                            (case err of None \<Rightarrow> [] | Some e \<Rightarrow> [PrintError (''error: '' @ e)]),
                          Inr (case graylogResSum of
                                 Some s \<Rightarrow> Some (bytesToGb s)
                               | None \<Rightarrow> None)))))"

subsection \<open>getMeshMembers and getBWUPCollection\<close>

definition getMeshMembers :: "world \<Rightarrow> Settings \<Rightarrow> event list \<times> (string + MeshMember list)" where
  "getMeshMembers w settings =
     (case airtableNew w (AirtableAPIKey settings) (AirtableBaseID settings) of
        Some err \<Rightarrow> ([], Inl err)
      | None \<Rightarrow>
          ([AirtableList (AirtableTableName settings)],
           listRecords w (AirtableAPIKey settings) (AirtableBaseID settings)
             (AirtableTableName settings)))"

definition getBWUPCollection :: "world \<Rightarrow> Settings \<Rightarrow> event list \<times> string option" where
  "getBWUPCollection w settings =
     ([MongoConnect (MongoURL settings)], mongoConnect w (MongoURL settings))"

subsection \<open>getBandwidthSums\<close>

text \<open>
  Lines 163 to 182: the two pointers to the three. \<open>sumTotal\<close> starts as the zero value
  of float64 and each present sum is added to it, the downloaded one first.
\<close>

definition bandwidthSums ::
  "float64 option \<Rightarrow> float64 option \<Rightarrow> float64 option \<times> float64 option \<times> float64 option" where
  "bandwidthSums sumUploaded sumDownloaded =
     (let userIsActive = False;
          sumTotal = Finite 0;
          (userIsActive, sumTotal) =
             (case sumDownloaded of
                Some d \<Rightarrow> (True, fadd sumTotal d)
              | None \<Rightarrow> (userIsActive, sumTotal));
          (userIsActive, sumTotal) =
             (case sumUploaded of
                Some u \<Rightarrow> (True, fadd sumTotal u)
              | None \<Rightarrow> (userIsActive, sumTotal));
          total' = (if userIsActive then Some sumTotal else None)
      in (sumUploaded, sumDownloaded, total'))"

text \<open>The whole function: the downloaded sum is fetched first, then the uploaded one.\<close>

definition getBandwidthSums ::
  "world \<Rightarrow> Settings \<Rightarrow> MeshMember \<Rightarrow>
     event list \<times> (string + float64 option \<times> float64 option \<times> float64 option)" where
  "getBandwidthSums w settings member =
     (case callGraylog w settings ''down'' (WGKey (Fields member)) of
        (evd, Inl err) \<Rightarrow> (evd, Inl err)
      | (evd, Inr sumDownloaded) \<Rightarrow>
          (case callGraylog w settings ''up'' (WGKey (Fields member)) of
             (evu, Inl err) \<Rightarrow> (evd @ evu, Inl err)
           | (evu, Inr sumUploaded) \<Rightarrow>
               (evd @ evu, Inr (bandwidthSums sumUploaded sumDownloaded))))"

subsection \<open>main\<close>

definition newline :: string where
  "newline = [CHR 0x0A]"

definition tab :: string where
  "tab = [CHR 0x09]"

definition errString :: string where
  "errString =
     ''Usage: $ stat-collector duration [end_time]'' @ newline @
     tab @ tab @ newline @
     tab @ tab @ ''duration must be formatted like 168h'' @ newline @
     tab @ tab @ newline @
     tab @ tab @ ''end_time must be formatted like 2006-01-2T15:04:05. If no end_time is supplied,''
       @ newline @
     tab @ tab @ ''it will use the current time.''"

text \<open>What \<open>log.Fatal\<close> prints for a parse error \<open>err\<close>.\<close>

definition usageMessage :: "string \<Rightarrow> string" where
  "usageMessage err = errString @ newline @ newline @ tab @ tab @ tab @ ''error: '' @ err"

text \<open>
  Lines 187 to 227: from the arguments to the settings. \<open>os.Args[1]\<close> is read first and
  panics when the list is shorter; \<open>err\<close> is one variable, assigned by
  \<open>time.ParseDuration\<close> and again by \<open>time.Parse\<close> when there is a third argument.
\<close>

definition configure :: "world \<Rightarrow> string list \<Rightarrow> exit + Settings" where
  "configure w args =
     (if length args < 2 then Inl (PanicIndexOutOfRange 1 (length args))
      else
        let (duration, err) = parseDuration w (args ! 1);
            (to, err) =
               (if length args = 2 then (now w, err)
                else parseTime w ''2006-01-2T15:04:05'' (args ! 2 @ ''T00:00:00''));
            from = Add to (- duration)
        in case err of
             Some e \<Rightarrow> Inl (Fatal (usageMessage e))
           | None \<Rightarrow>
               Inr \<lparr>AirtableAPIKey = getenv w ''AIRTABLE_API_KEY'',
                    AirtableBaseID = getenv w ''AIRTABLE_BASE_ID'',
                    AirtableTableName = getenv w ''AIRTABLE_TABLE_NAME'',
                    GraylogURL = getenv w ''GRAYLOG_URL'',
                    GraylogUser = getenv w ''GRAYLOG_USER'',
                    GraylogPass = getenv w ''GRAYLOG_PASS'',
                    Settings.From = from,
                    Settings.To = to,
                    Settings.Duration = duration,
                    MongoDatabase = getenv w ''MONGO_DATABASE'',
                    MongoCollection = getenv w ''MONGO_COLLECTION'',
                    MongoURL = getenv w ''MONGO_URL''\<rparr>)"

text \<open>
  Lines 243 to 268, the body of the loop for one member: the events, and the text of
  \<open>log.Fatal\<close> when the run stops there.
\<close>

definition loopBody :: "world \<Rightarrow> Settings \<Rightarrow> MeshMember \<Rightarrow> event list \<times> string option" where
  "loopBody w settings member =
     (case getBandwidthSums w settings member of
        (ev, Inl err) \<Rightarrow> (ev, Some err)
      | (ev, Inr (sumUploaded, sumDownloaded, total')) \<Rightarrow>
          (if total' \<noteq> None
           then
             let bwup = \<lparr>BandwidthUsagePeriod.Name = trimSpace w (MeshMemberFields.Name (Fields member)),
                         BandwidthUsagePeriod.From = Settings.From settings,
                         BandwidthUsagePeriod.To = Settings.To settings,
                         BandwidthUsagePeriod.Duration = Settings.Duration settings,
                         Up = sumUploaded,
                         Down = sumDownloaded,
                         Total = total'\<rparr>
             in (ev @ [PrintPeriod bwup, InsertOne bwup], insertOne w bwup)
           else (ev, None)))"

text \<open>Lines 242 to 269: the loop over the members.\<close>

fun mainLoop :: "world \<Rightarrow> Settings \<Rightarrow> MeshMember list \<Rightarrow> event list \<times> exit" where
  "mainLoop w settings [] = ([], Done)"
| "mainLoop w settings (member # meshMembers) =
     (case loopBody w settings member of
        (ev, Some err) \<Rightarrow> (ev, Fatal err)
      | (ev, None) \<Rightarrow>
          (case mainLoop w settings meshMembers of
             (ev', x) \<Rightarrow> (ev @ ev', x)))"

text \<open>Lines 229 to 269: the run once the settings stand.\<close>

definition collect :: "world \<Rightarrow> Settings \<Rightarrow> event list \<times> exit" where
  "collect w settings =
     (case getMeshMembers w settings of
        (ev1, Inl err) \<Rightarrow> (PrintSettings settings # ev1, Fatal err)
      | (ev1, Inr meshMembers) \<Rightarrow>
          (case getBWUPCollection w settings of
             (ev2, Some err) \<Rightarrow> (PrintSettings settings # ev1 @ ev2, Fatal err)
           | (ev2, None) \<Rightarrow>
               (case mainLoop w settings meshMembers of
                  (ev3, x) \<Rightarrow> (PrintSettings settings # ev1 @ ev2 @ ev3, x))))"

definition main :: "world \<Rightarrow> string list \<Rightarrow> event list \<times> exit" where
  "main w args =
     (case configure w args of
        Inl x \<Rightarrow> ([], x)
      | Inr settings \<Rightarrow> collect w settings)"

subsection \<open>The aggregation as the specification words it\<close>

text \<open>
  Section 4.3 of the specification, step by step, on the two optional byte counts:
  \<open>active := false\<close> and \<open>totalBytes := 0\<close>; a present \<open>down\<close>, then a present \<open>up\<close>, sets
  \<open>active\<close> and is added to \<open>totalBytes\<close>; \<open>Total\<close> is absent when \<open>active\<close> is false and
  \<open>totalBytes\<close> otherwise; last, every present value (\<open>up\<close>, \<open>down\<close>, \<open>total\<close>) is
  converted from bytes to gigabytes. The code converts first, in \<open>callGraylog\<close>, and adds
  the converted values.
\<close>

definition specAggregate ::
  "float64 option \<Rightarrow> float64 option \<Rightarrow> float64 option \<times> float64 option \<times> float64 option" where
  "specAggregate up down =
     (let active = False;
          totalBytes = Finite 0;
          (active, totalBytes) =
             (case down of
                Some d \<Rightarrow> (True, fadd totalBytes d)
              | None \<Rightarrow> (active, totalBytes));
          (active, totalBytes) =
             (case up of
                Some u \<Rightarrow> (True, fadd totalBytes u)
              | None \<Rightarrow> (active, totalBytes));
          total' = (if active then Some totalBytes else None)
      in (map_option bytesToGb up, map_option bytesToGb down, map_option bytesToGb total'))"

subsection \<open>Reading a run\<close>

text \<open>The periods a list of events hands to \<open>InsertOne\<close>, in order.\<close>

fun insertsOf :: "event list \<Rightarrow> BandwidthUsagePeriod list" where
  "insertsOf [] = []"
| "insertsOf (InsertOne p # es) = p # insertsOf es"
| "insertsOf (e # es) = insertsOf es"

text \<open>
  An event carries the window of the settings: a Graylog request the two instants as
  \<open>Format\<close> writes them with the layout of \<open>callGraylog\<close>, a period the two instants and
  the duration themselves.
\<close>

fun usesWindow :: "world \<Rightarrow> Settings \<Rightarrow> event \<Rightarrow> bool" where
  "usesWindow w s (GraylogGet r) =
     (req_from r = formatTime w (Settings.From s) ''2006-01-2T15:04:05.000Z'' \<and>
      req_to r = formatTime w (Settings.To s) ''2006-01-2T15:04:05.000Z'')"
| "usesWindow w s (InsertOne p) =
     (BandwidthUsagePeriod.From p = Settings.From s \<and> BandwidthUsagePeriod.To p = Settings.To s \<and>
      BandwidthUsagePeriod.Duration p = Settings.Duration s)"
| "usesWindow w s (PrintPeriod p) =
     (BandwidthUsagePeriod.From p = Settings.From s \<and> BandwidthUsagePeriod.To p = Settings.To s \<and>
      BandwidthUsagePeriod.Duration p = Settings.Duration s)"
| "usesWindow w s (PrintSettings s') = (s' = s)"
| "usesWindow w s e = True"

text \<open>The process ended in \<open>log.Fatal\<close> with the usage text.\<close>

fun usageExit :: "exit \<Rightarrow> bool" where
  "usageExit (Fatal msg) = (take (length errString) msg = errString)"
| "usageExit x = False"

subsection \<open>A world to run the program in\<close>

text \<open>
  One world, for the examples. The standard library answers as Go's does on the strings
  the examples use and with an error on every other string; the clock is in UTC, and
  a time is formatted as above with the layout of \<open>callGraylog\<close>; the roster has four
  members;
  Graylog has 1000000000 bytes uploaded and no log entry downloaded for the first, no
  entry at all for the second, zero bytes both ways for the third, and answers the
  queries about the fourth with a page that is not JSON; nothing else fails.
\<close>

text \<open>
  \<open>t.Format\<close> with the layout \<open>2006-01-2T15:04:05.000Z\<close> for a time in UTC, in the years
  0 to 9999: the year on four digits, the month on two, the day as it is, the time of
  day, the milliseconds (the rest is cut off) and the letter Z.
\<close>

definition civilFromDays :: "int \<Rightarrow> int \<times> int \<times> int" where
  "civilFromDays days =
     (let z = days + 719468;
          era = z div 146097;
          doe = z - era * 146097;
          yoe = (doe - doe div 1460 + doe div 36524 - doe div 146096) div 365;
          doy = doe - (365 * yoe + yoe div 4 - yoe div 100);
          mp = (5 * doy + 2) div 153;
          d = doy - (153 * mp + 2) div 5 + 1;
          m = (if mp < 10 then mp + 3 else mp - 9)
      in (if m \<le> 2 then yoe + era * 400 + 1 else yoe + era * 400, m, d))"

definition digit :: "int \<Rightarrow> char" where
  "digit n = ''0123456789'' ! nat n"

definition digits2 :: "int \<Rightarrow> string" where
  "digits2 n = [digit (n div 10), digit (n mod 10)]"

definition formatUTC :: "Time \<Rightarrow> string" where
  "formatUTC t =
     (let secs = t div 1000000000;
          ms = t mod 1000000000 div 1000000;
          clock = secs mod 86400
      in case civilFromDays (secs div 86400) of
           (y, m, d) \<Rightarrow>
             digits2 (y div 100) @ digits2 (y mod 100) @ ''-'' @ digits2 m @ ''-'' @
             (if d < 10 then [digit d] else digits2 d) @ ''T'' @
             digits2 (clock div 3600) @ '':'' @ digits2 (clock mod 3600 div 60) @ '':'' @
             digits2 (clock mod 60) @ ''.'' @ [digit (ms div 100)] @ digits2 (ms mod 100) @ ''Z'')"

definition exampleMember :: "string \<Rightarrow> string \<Rightarrow> MeshMember" where
  "exampleMember name key =
     \<lparr>ID = ''rec'' @ key,
      Fields = \<lparr>MeshMemberFields.Name = name, WGKey = key, Upstream = []\<rparr>\<rparr>"

definition exampleQuery :: "string \<Rightarrow> string \<Rightarrow> string" where
  "exampleQuery key directionString =
     quote @ key @ quote @ '' AND '' @ quote @ directionString @ quote"

definition exampleBody :: "string \<Rightarrow> string" where
  "exampleBody v = ''{'' @ quote @ ''sum'' @ quote @ '':'' @ v @ ''}''"

definition exampleWorld :: world where
  "exampleWorld =
     \<lparr>parseDuration = (\<lambda>s.
        if s = ''24h'' then (86400000000000, None)
        else if s = ''-1h'' then (- 3600000000000, None)
        else if s = ''-2562047h47m16.854775808s'' then (- 9223372036854775808, None)
        else (0, Some (''time: invalid duration '' @ quote @ s @ quote))),
      parseTime = (\<lambda>layout v.
        if layout = ''2006-01-2T15:04:05'' \<and> v = ''2024-01-02T00:00:00''
        then (civil 2024 1 2, None)
        else (zeroTime, Some (''parsing time '' @ quote @ v @ quote))),
      now = civil 2024 3 1 + 45296 * 1000000000,
      formatTime = (\<lambda>t layout. if layout = ''2006-01-2T15:04:05.000Z'' then formatUTC t else []),
      getenv = (\<lambda>name. name),
      trimSpace = (\<lambda>s. rev (dropWhile (\<lambda>c. c = CHR '' '') (rev (dropWhile (\<lambda>c. c = CHR '' '') s)))),
      airtableNew = (\<lambda>key base. None),
      listRecords = (\<lambda>key base table.
        Inr [exampleMember '' alice '' ''A'', exampleMember ''bob'' ''B'',
             exampleMember ''carol'' ''C'', exampleMember ''dave'' ''D'']),
      mongoConnect = (\<lambda>url. None),
      newRequest = (\<lambda>r. None),
      httpGet = (\<lambda>r.
        if req_query r = exampleQuery ''A'' ''uploaded to exit''
        then Inr (exampleBody ''1000000000'')
        else if req_query r = exampleQuery ''C'' ''uploaded to exit''
              \<or> req_query r = exampleQuery ''C'' ''downloaded from exit''
        then Inr (exampleBody ''0'')
        else if req_query r = exampleQuery ''D'' ''uploaded to exit''
              \<or> req_query r = exampleQuery ''D'' ''downloaded from exit''
        then Inr ''<html>Bad Gateway</html>''
        else Inr (exampleBody (quote @ ''NaN'' @ quote))),
      jsonUnmarshal = (\<lambda>body.
        if body = exampleBody ''1000000000'' then (None, Some (Finite 1000000000))
        else if body = exampleBody ''0'' then (None, Some (Finite 0))
        else if body = exampleBody ''null'' then (None, None)
        else (Some ''invalid character'', None)),
      insertOne = (\<lambda>p. None)\<rparr>"

text \<open>
  The settings of \<open>stat-collector 24h 2024-01-02\<close> in that world: the day before
  January 2, 2024.
\<close>

definition exampleSettings :: Settings where
  "exampleSettings =
     \<lparr>AirtableAPIKey = ''AIRTABLE_API_KEY'',
      AirtableBaseID = ''AIRTABLE_BASE_ID'',
      AirtableTableName = ''AIRTABLE_TABLE_NAME'',
      GraylogURL = ''GRAYLOG_URL'',
      GraylogUser = ''GRAYLOG_USER'',
      GraylogPass = ''GRAYLOG_PASS'',
      Settings.From = civil 2024 1 1,
      Settings.To = civil 2024 1 2,
      Settings.Duration = 86400000000000,
      MongoDatabase = ''MONGO_DATABASE'',
      MongoCollection = ''MONGO_COLLECTION'',
      MongoURL = ''MONGO_URL''\<rparr>"

section \<open>Properties\<close>

subsection \<open>Rounding to float64\<close>

text \<open>
  \<open>ilog2\<close> finds the binade of a positive rational, and a value that \<open>round64\<close>
  returns is a float64: rounding it again changes nothing.
\<close>

lemma rat_pos_quotient:
  assumes "0 < q"
  obtains n d where "quotient_of q = (n, d)" "0 < n" "0 < d" "q = of_int n / of_int d"
proof -
  obtain n d where nd: "quotient_of q = (n, d)" by (cases "quotient_of q")
  have d: "0 < d" using nd by (rule quotient_of_denom_pos)
  have q: "q = of_int n / of_int d" using nd by (rule quotient_of_div)
  have "0 < n" using assms d q by (simp add: zero_less_divide_iff)
  with nd d q show ?thesis using that by blast
qed

lemma pow2_bitlen_le:
  assumes "0 < n"
  shows "(2::rat) powi (bitlen n - 1) \<le> of_int n" and "of_int n < (2::rat) powi (bitlen n)"
proof -
  from bitlen_bounds [OF assms] have a: "2 ^ nat (bitlen n - 1) \<le> n" and b: "n < 2 ^ nat (bitlen n)"
    by auto
  have pos: "1 \<le> bitlen n" using assms by (auto simp: bitlen_alt_def)
  have "(2::rat) powi (bitlen n - 1) = 2 ^ nat (bitlen n - 1)"
    using pos by (simp add: power_int_def)
  also have "\<dots> = of_int (2 ^ nat (bitlen n - 1))" by simp
  also have "\<dots> \<le> of_int n" using a by (simp only: of_int_le_iff)
  finally show "(2::rat) powi (bitlen n - 1) \<le> of_int n" .
  have "(of_int n :: rat) < of_int (2 ^ nat (bitlen n))" using b by (simp only: of_int_less_iff)
  also have "\<dots> = 2 powi (bitlen n)" using pos by (simp add: power_int_def)
  finally show "of_int n < (2::rat) powi (bitlen n)" .
qed

lemma ilog2_bounds:
  assumes "0 < q"
  shows "2 powi (ilog2 q) \<le> q" and "q < 2 powi (ilog2 q + 1)"
proof -
  from assms obtain n d where nd: "quotient_of q = (n, d)" and n: "0 < n" and d: "0 < d"
    and q: "q = of_int n / of_int d" by (rule rat_pos_quotient)
  define k where "k = bitlen n - bitlen d"
  have dpos: "(0::rat) < of_int d" using d by simp
  have lo: "(2::rat) powi (k - 1) < q"
  proof -
    have "(2::rat) powi (k - 1) * of_int d < 2 powi (k - 1) * 2 powi (bitlen d)"
      using pow2_bitlen_le(2) [OF d] by (simp add: mult_strict_left_mono)
    also have "\<dots> = 2 powi (bitlen n - 1)"
      by (simp add: k_def power_int_add [symmetric])
    also have "\<dots> \<le> of_int n" using pow2_bitlen_le(1) [OF n] .
    finally show ?thesis using dpos by (simp add: q pos_less_divide_eq)
  qed
  have hi: "q < (2::rat) powi (k + 1)"
  proof -
    have "(of_int n :: rat) < 2 powi (bitlen n)" using pow2_bitlen_le(2) [OF n] .
    also have "\<dots> = 2 powi (k + 1) * 2 powi (bitlen d - 1)"
      by (simp add: k_def power_int_add [symmetric])
    also have "\<dots> \<le> 2 powi (k + 1) * of_int d"
      using pow2_bitlen_le(1) [OF d] by (simp add: mult_left_mono)
    finally show ?thesis using dpos by (simp add: q pos_divide_less_eq)
  qed
  have il: "ilog2 q = (if 2 powi k \<le> q then k else k - 1)"
    by (simp add: ilog2_def nd k_def Let_def)
  show "2 powi (ilog2 q) \<le> q" using lo by (simp add: il less_imp_le)
  show "q < 2 powi (ilog2 q + 1)" using hi by (auto simp: il)
qed

lemma pow2_less_D: "(2::rat) powi a < 2 powi b \<Longrightarrow> a < b"
proof (rule ccontr)
  assume lt: "(2::rat) powi a < 2 powi b" and "\<not> a < b"
  then have "b \<le> a" by simp
  then have "(2::rat) powi b \<le> 2 powi a" by (rule power_int_increasing) simp
  with lt show False by simp
qed

lemma ilog2_unique:
  assumes "0 < q" and "2 powi k \<le> q" and "q < 2 powi (k + 1)"
  shows "ilog2 q = k"
proof -
  have a: "(2::rat) powi (ilog2 q) < 2 powi (k + 1)"
    using ilog2_bounds(1) [OF assms(1)] assms(3) by (rule le_less_trans)
  have b: "(2::rat) powi k < 2 powi (ilog2 q + 1)"
    using assms(2) ilog2_bounds(2) [OF assms(1)] by (rule le_less_trans)
  from a have "ilog2 q < k + 1" by (rule pow2_less_D)
  moreover from b have "k < ilog2 q + 1" by (rule pow2_less_D)
  ultimately show ?thesis by simp
qed

lemma ilog2_less:
  assumes "0 < q" and "q < 2 powi k"
  shows "ilog2 q < k"
proof -
  have "(2::rat) powi (ilog2 q) < 2 powi k"
    using ilog2_bounds(1) [OF assms(1)] assms(2) by (rule le_less_trans)
  then show ?thesis by (rule pow2_less_D)
qed

lemma rne_of_int: "rne (of_int m) = m"
  by (simp add: rne_def)

lemma rne_ge:
  assumes "of_int a \<le> x"
  shows "a \<le> rne x"
proof -
  have "a \<le> \<lfloor>x\<rfloor>" using assms by (simp add: le_floor_iff)
  then show ?thesis by (auto simp: rne_def Let_def)
qed

lemma rne_le:
  assumes "x \<le> of_int b"
  shows "rne x \<le> b"
proof (cases "x = of_int b")
  case True
  then show ?thesis by (simp add: rne_of_int)
next
  case False
  with assms have "x < of_int b" by simp
  then have "\<lfloor>x\<rfloor> < b" by (simp add: floor_less_iff)
  then show ?thesis by (auto simp: rne_def Let_def)
qed

lemma rne_abs_le:
  assumes "\<bar>x\<bar> \<le> of_int n"
  shows "\<bar>rne x\<bar> \<le> n"
proof -
  have "of_int (- n) \<le> x" and "x \<le> of_int n" using assms by auto
  then have "- n \<le> rne x" and "rne x \<le> n" by (auto intro: rne_ge rne_le)
  then show ?thesis by simp
qed

lemma round64_unfold:
  "round64 q =
     (if q = 0 then Finite 0
      else if overflow_bound \<le> \<bar>of_int (rne (q / 2 powi ulp_exp q)) * 2 powi ulp_exp q\<bar>
           then (if 0 < q then PosInf else NegInf)
           else Finite (of_int (rne (q / 2 powi ulp_exp q)) * 2 powi ulp_exp q))"
  by (simp add: round64_def Let_def)

lemma round64_of_multiple:
  assumes "v \<noteq> 0" and "v = of_int j * 2 powi ulp_exp v"
  shows "round64 v =
           (if overflow_bound \<le> \<bar>v\<bar> then (if 0 < v then PosInf else NegInf) else Finite v)"
proof -
  have "v / 2 powi ulp_exp v = of_int j"
    using assms(2) by (metis nonzero_mult_div_cancel_right power_int_eq_0_iff zero_neq_numeral)
  then have "of_int (rne (v / 2 powi ulp_exp v)) * 2 powi ulp_exp v = v"
    using assms(2) by (simp add: rne_of_int)
  then show ?thesis using assms(1) by (subst round64_unfold) simp
qed

lemma rounded_on_own_grid:
  assumes "q \<noteq> 0"
  defines "e \<equiv> ulp_exp q"
  defines "v \<equiv> of_int (rne (q / 2 powi e)) * 2 powi e"
  assumes "v \<noteq> 0"
  shows "\<exists>j. v = of_int j * 2 powi ulp_exp v"
proof -
  define m where "m = rne (q / 2 powi e)"
  have v: "v = of_int m * 2 powi e" by (simp add: v_def m_def)
  have m0: "m \<noteq> 0" using assms(4) v by auto
  have e_ge: "- 1074 \<le> e" and e_ge2: "ilog2 \<bar>q\<bar> - 52 \<le> e" by (simp_all add: e_def ulp_exp_def)
  have p2: "(0::rat) < 2 powi e" by simp
  have "\<bar>q\<bar> < 2 powi (ilog2 \<bar>q\<bar> + 1)" using assms(1) by (simp add: ilog2_bounds(2))
  also have "\<dots> \<le> 2 powi (e + 53)" using e_ge2 by (simp add: power_int_increasing)
  also have "\<dots> = 2 powi e * 2 ^ 53" by (simp add: power_int_add)
  finally have "\<bar>q\<bar> / 2 powi e < 2 ^ 53" using p2 by (simp add: pos_divide_less_eq mult.commute)
  then have "\<bar>q / 2 powi e\<bar> \<le> of_int (2 ^ 53)" by (simp add: abs_divide)
  then have mle: "\<bar>m\<bar> \<le> 2 ^ 53" unfolding m_def by (rule rne_abs_le)
  have absv: "\<bar>v\<bar> = of_int \<bar>m\<bar> * 2 powi e" by (simp add: v abs_mult)
  have vpos: "0 < \<bar>v\<bar>" using assms(4) by simp
  show ?thesis
  proof (cases "\<bar>m\<bar> = 2 ^ 53")
    case True
    have av: "\<bar>v\<bar> = 2 powi (e + 53)" by (simp add: absv True power_int_add mult.commute)
    have "ilog2 \<bar>v\<bar> = e + 53"
      by (rule ilog2_unique [OF vpos]) (simp_all add: av power_int_strict_increasing)
    then have ev: "ulp_exp v = e + 1" using e_ge by (simp add: ulp_exp_def)
    have "v = of_int (m div 2) * 2 powi (e + 1)"
    proof -
      have "even m" using True
        by (metis abs_zero dvd_abs_iff even_numeral even_power zero_neq_numeral zero_less_numeral)
      then have "(of_int m :: rat) = of_int (m div 2) * 2"
        by (metis dvd_mult_div_cancel mult.commute of_int_mult of_int_numeral)
      then show ?thesis by (simp add: v power_int_add)
    qed
    then show ?thesis using ev by auto
  next
    case False
    with mle have "\<bar>m\<bar> < 2 ^ 53" by simp
    then have "(of_int \<bar>m\<bar> :: rat) < of_int (2 ^ 53)" by (simp only: of_int_less_iff)
    then have "\<bar>v\<bar> < 2 ^ 53 * 2 powi e" using p2 by (simp add: absv)
    also have "\<dots> = 2 powi (e + 53)" by (simp add: power_int_add)
    finally have "ilog2 \<bar>v\<bar> < e + 53" using vpos by (intro ilog2_less)
    then have le: "ulp_exp v \<le> e" using e_ge by (simp add: ulp_exp_def)
    define d where "d = nat (e - ulp_exp v)"
    have "e = ulp_exp v + int d" using le by (simp add: d_def)
    then have pe: "(2::rat) powi e = 2 powi ulp_exp v * 2 ^ d"
      by (metis power_int_add power_int_of_nat zero_neq_numeral)
    have "of_int m * (2::rat) powi e = of_int m * (2 powi ulp_exp v * 2 ^ d)"
      by (simp only: pe)
    also have "\<dots> = of_int (m * 2 ^ d) * 2 powi ulp_exp v" by (simp add: mult_ac)
    finally have "v = of_int (m * 2 ^ d) * 2 powi ulp_exp v" by (simp only: v)
    then show ?thesis by blast
  qed
qed

lemma round64_idem:
  assumes "round64 q = Finite v"
  shows "round64 v = Finite v"
proof (cases "v = 0")
  case True
  then show ?thesis by (simp add: round64_def)
next
  case False
  have q0: "q \<noteq> 0" using assms False by (auto simp: round64_def)
  define w :: rat where "w = of_int (rne (q / 2 powi ulp_exp q)) * 2 powi ulp_exp q"
  from assms q0 have vw: "v = w" and small: "\<not> overflow_bound \<le> \<bar>w\<bar>"
    by (auto simp: round64_unfold w_def split: if_splits)
  from False vw have "w \<noteq> 0" by simp
  then obtain j where "w = of_int j * 2 powi ulp_exp w"
    using rounded_on_own_grid [OF q0] unfolding w_def by blast
  from round64_of_multiple [OF \<open>w \<noteq> 0\<close> this] small show ?thesis by (simp add: vw)
qed

lemma is_float64_round64: "is_float64 (round64 q)"
  by (cases "round64 q") (simp_all add: round64_idem)

lemma rne_near:
  assumes "\<bar>x - of_int m\<bar> < 1 / 2"
  shows "rne x = m"
proof -
  from assms have lo: "of_int m - 1 / 2 < x" and hi: "x < of_int m + 1 / 2" by linarith+
  show ?thesis
  proof (cases "of_int m \<le> x")
    case True
    from hi have "x < of_int m + 1" by linarith
    with True have "\<lfloor>x\<rfloor> = m" by (simp add: floor_unique)
    then show ?thesis using hi by (simp add: rne_def Let_def)
  next
    case False
    from lo have "of_int (m - 1) \<le> x" by simp
    moreover from False have "x < of_int (m - 1) + 1" by simp
    ultimately have f: "\<lfloor>x\<rfloor> = m - 1" by (rule floor_unique)
    have "1 / 2 < x - of_int (m - 1)" using lo by simp
    then show ?thesis by (simp add: rne_def Let_def f)
  qed
qed

lemma rne_tie:
  assumes "x = of_int f + 1 / 2"
  shows "rne x = (if even f then f else f + 1)"
proof -
  have "\<lfloor>x\<rfloor> = f" by (rule floor_unique) (simp_all add: assms)
  then show ?thesis by (simp add: rne_def Let_def assms)
qed

text \<open>Evaluating a rounding: the binade is given, the rest is arithmetic on numerals.\<close>

lemma round64_eval:
  assumes "0 < \<bar>q\<bar>" and "2 powi k \<le> \<bar>q\<bar>" and "\<bar>q\<bar> < 2 powi (k + 1)"
    and "e = max (k - 52) (- 1074)"
    and "rne (q / 2 powi e) = m"
    and "\<bar>of_int m * 2 powi e\<bar> < (2::rat) ^ 1024"
  shows "round64 q = Finite (of_int m * 2 powi e)"
proof -
  have "ilog2 \<bar>q\<bar> = k" using assms(1-3) by (rule ilog2_unique)
  then have "ulp_exp q = e" by (simp add: ulp_exp_def assms(4))
  then show ?thesis using assms(1,5,6)
    by (subst round64_unfold) (auto simp: overflow_bound_def)
qed

subsection \<open>Sums and conversions\<close>

lemma fadd_zero_left: "is_float64 x \<Longrightarrow> fadd (Finite 0) x = x"
  by (cases x) simp_all

lemma bytesToGb_Finite: "bytesToGb (Finite a) = round64 (a / 1000000000)"
  by (simp add: bytesToGb_def)

lemma is_float64_bytesToGb: "is_float64 (bytesToGb x)"
  by (cases x) (simp_all add: bytesToGb_def is_float64_round64 del: is_float64.simps(1))

lemma fadd_zero_bytesToGb: "fadd (Finite 0) (bytesToGb x) = bytesToGb x"
  by (rule fadd_zero_left) (rule is_float64_bytesToGb)

lemma bandwidthSums_cases:
  "bandwidthSums None None = (None, None, None)"
  "bandwidthSums (Some u) None = (Some u, None, Some (fadd (Finite 0) u))"
  "bandwidthSums None (Some d) = (None, Some d, Some (fadd (Finite 0) d))"
  "bandwidthSums (Some u) (Some d) = (Some u, Some d, Some (fadd (fadd (Finite 0) d) u))"
  by (simp_all add: bandwidthSums_def)

lemma specAggregate_cases:
  "specAggregate None None = (None, None, None)"
  "specAggregate (Some u) None = (Some (bytesToGb u), None, Some (bytesToGb (fadd (Finite 0) u)))"
  "specAggregate None (Some d) = (None, Some (bytesToGb d), Some (bytesToGb (fadd (Finite 0) d)))"
  "specAggregate (Some u) (Some d) =
     (Some (bytesToGb u), Some (bytesToGb d), Some (bytesToGb (fadd (fadd (Finite 0) d) u)))"
  by (simp_all add: specAggregate_def)

text \<open>Some roundings, evaluated.\<close>

lemma round64_2_5: "round64 (5 / 2) = Finite (5 / 2)"
  using round64_eval [of "5 / 2" 1 "- 51" 5629499534213120]
  by (simp add: power_int_minus rne_near)

lemma round64_1: "round64 1 = Finite 1"
  using round64_eval [of 1 0 "- 52" 4503599627370496]
  by (simp add: power_int_minus rne_near)

lemma round64_2: "round64 2 = Finite 2"
  using round64_eval [of 2 1 "- 51" 4503599627370496]
  by (simp add: power_int_minus rne_near)

lemma round64_3: "round64 3 = Finite 3"
  using round64_eval [of 3 1 "- 51" 6755399441055744]
  by (simp add: power_int_minus rne_near)

lemma round64_1e9: "round64 1000000000 = Finite 1000000000"
  using round64_eval [of 1000000000 29 "- 23" 8388608000000000]
  by (simp add: power_int_minus rne_near)

lemma bytesToGb_1: "bytesToGb (Finite 1) = Finite (4835703278458517 / 4835703278458516698824704)"
  using round64_eval [of "1 / 1000000000" "-30" "- 82" 4835703278458517]
  by (simp add: bytesToGb_Finite power_int_minus rne_near)

lemma bytesToGb_2: "bytesToGb (Finite 2) = Finite (4835703278458517 / 2417851639229258349412352)"
  using round64_eval [of "1 / 500000000" "-29" "- 81" 4835703278458517]
  by (simp add: bytesToGb_Finite power_int_minus rne_near)

lemma bytesToGb_3: "bytesToGb (Finite 3) = Finite (7253554917687775 / 2417851639229258349412352)"
  using round64_eval [of "3 / 1000000000" "-29" "- 81" 7253554917687775]
  by (simp add: bytesToGb_Finite power_int_minus rne_near)

lemma bytesToGb_1e9: "bytesToGb (Finite 1000000000) = Finite 1"
  by (simp add: bytesToGb_Finite round64_1)

lemma bytesToGb_2500000000: "bytesToGb (Finite 2500000000) = Finite (5 / 2)"
  by (simp add: bytesToGb_Finite round64_2_5)

lemma round64_sum12:
  "round64 (4835703278458517 / 2417851639229258349412352 + 4835703278458517 / 4835703278458516698824704)
     = Finite (226673591177743 / 75557863725914323419136)"
  using round64_eval [of "14507109835375551 / 4835703278458516698824704" "-29" "- 81" 7253554917687776]
    rne_tie [of "14507109835375551 / 2" 7253554917687775]
  by (simp add: power_int_minus)

lemma spec_total_1_2:
  "specAggregate (Some (Finite 1)) (Some (Finite 2)) =
     (Some (Finite (4835703278458517 / 4835703278458516698824704)),
      Some (Finite (4835703278458517 / 2417851639229258349412352)),
      Some (Finite (7253554917687775 / 2417851639229258349412352)))"
  by (simp add: specAggregate_cases round64_1 round64_2 round64_3
      bytesToGb_1 bytesToGb_2 bytesToGb_3)

lemma code_total_1_2:
  "bandwidthSums (map_option bytesToGb (Some (Finite 1))) (map_option bytesToGb (Some (Finite 2))) =
     (Some (Finite (4835703278458517 / 4835703278458516698824704)),
      Some (Finite (4835703278458517 / 2417851639229258349412352)),
      Some (Finite (226673591177743 / 75557863725914323419136)))"
proof -
  have "fadd (Finite 0) (bytesToGb (Finite 2)) = bytesToGb (Finite 2)"
    by (rule fadd_zero_bytesToGb)
  then have "fadd (Finite 0) (Finite (4835703278458517 / 2417851639229258349412352)) =
      Finite (4835703278458517 / 2417851639229258349412352)"
    by (simp only: bytesToGb_2)
  then show ?thesis
    using round64_sum12
    by (simp add: bandwidthSums_cases bytesToGb_1 bytesToGb_2)
qed

subsection \<open>The unit conversion\<close>

text \<open>
  Claim C8: the unit conversion is the division of the byte count by 1000000000 (decimal
  gigabytes). \<open>bytesToGb x\<close> is Go's float64 quotient \<open>x / 1000000000\<close>: for a finite
  \<open>x\<close>, the exact quotient rounded to float64, which is the exact quotient itself whenever
  that is a float64; and \<open>bytesToGb 2500000000\<close> is \<open>2.5\<close>.
\<close>

theorem bytesToGb_is_division_by_1e9:
  "bytesToGb x = fdiv x (Finite 1000000000) \<and>
   bytesToGb (Finite a) = round64 (a / 1000000000) \<and>
   (is_float64 (Finite (a / 1000000000)) \<longrightarrow> bytesToGb (Finite a) = Finite (a / 1000000000)) \<and>
   bytesToGb (Finite 2500000000) = Finite (5 / 2)"
  by (simp add: bytesToGb_2500000000) (simp add: bytesToGb_def)

text \<open>The witness for C8: \<open>2500000000 / 1000000000\<close> is a float64, and the result.\<close>

theorem bytesToGb_is_division_witness:
  "is_float64 (Finite (2500000000 / 1000000000)) \<and>
   bytesToGb (Finite 2500000000) = Finite (2500000000 / 1000000000)"
  using bytesToGb_is_division_by_1e9 [of "Finite 2500000000" 2500000000]
  by (simp add: round64_2_5)

subsection \<open>The aggregation\<close>

text \<open>
  Claim C7, as stated, fails: with 1 byte uploaded and 2 bytes downloaded, adding the
  bytes and converting the total gives \<open>3e-09\<close>, and converting each and adding gives
  \<open>3.0000000000000004e-09\<close>.
\<close>

theorem spec_order_differs_from_code_order:
  "specAggregate (Some (Finite 1)) (Some (Finite 2)) \<noteq>
     bandwidthSums (map_option bytesToGb (Some (Finite 1))) (map_option bytesToGb (Some (Finite 2)))"
  unfolding spec_total_1_2 code_total_1_2 by simp

text \<open>
  Claim C7, amended: for every pair of optional float64 byte counts, the specification's
  order and the code's give the same \<open>Up\<close>, the same \<open>Down\<close>, and a \<open>Total\<close> that is
  present in the one exactly when it is in the other; when at most one count is present
  the whole results are equal.
\<close>

theorem spec_order_agrees_except_both_present:
  assumes "case up of None \<Rightarrow> True | Some u \<Rightarrow> is_float64 u"
    and "case down of None \<Rightarrow> True | Some d \<Rightarrow> is_float64 d"
  shows "fst (specAggregate up down) =
           fst (bandwidthSums (map_option bytesToGb up) (map_option bytesToGb down)) \<and>
         fst (snd (specAggregate up down)) =
           fst (snd (bandwidthSums (map_option bytesToGb up) (map_option bytesToGb down))) \<and>
         (snd (snd (specAggregate up down)) = None \<longleftrightarrow>
            snd (snd (bandwidthSums (map_option bytesToGb up) (map_option bytesToGb down))) = None) \<and>
         (up = None \<or> down = None \<longrightarrow>
            specAggregate up down =
              bandwidthSums (map_option bytesToGb up) (map_option bytesToGb down))"
  using assms
  by (cases up; cases down)
     (simp_all add: specAggregate_cases bandwidthSums_cases fadd_zero_left fadd_zero_bytesToGb
        del: is_float64.simps(1))

text \<open>The witness for C7: 1000000000 bytes uploaded and nothing downloaded.\<close>

theorem spec_order_agrees_witness:
  "specAggregate (Some (Finite 1000000000)) None =
     bandwidthSums (map_option bytesToGb (Some (Finite 1000000000))) (map_option bytesToGb None) \<and>
   specAggregate (Some (Finite 1000000000)) None = (Some (Finite 1), None, Some (Finite 1))"
proof -
  have f: "case Some (Finite 1000000000) of None \<Rightarrow> True | Some u \<Rightarrow> is_float64 u"
    by (simp add: round64_1e9)
  have n: "case (None :: float64 option) of None \<Rightarrow> True | Some d \<Rightarrow> is_float64 d"
    by simp
  have "specAggregate (Some (Finite 1000000000)) None = (Some (Finite 1), None, Some (Finite 1))"
    by (simp add: specAggregate_cases bytesToGb_1e9 round64_1e9)
  then show ?thesis
    using spec_order_agrees_except_both_present [OF f n] by simp
qed

subsection \<open>The events of a run\<close>

text \<open>
  \<open>callGraylog\<close> sends at most one request, with the window of the settings, and inserts
  nothing; the loop stops at the first fatal error, and a run that ends without one has
  inserted what the body inserted for each member, in the order of the roster.
\<close>

lemma insertsOf_append: "insertsOf (xs @ ys) = insertsOf xs @ insertsOf ys"
  by (induction xs rule: insertsOf.induct) simp_all

lemma callGraylog_events:
  "fst (callGraylog w s direction key) = [] \<or>
   fst (callGraylog w s direction key) = [GraylogGet (graylogRequest w s direction key)] \<or>
   (\<exists>e. fst (callGraylog w s direction key) =
      [GraylogGet (graylogRequest w s direction key), PrintError e])"
  by (auto simp: callGraylog_def Let_def split: option.splits sum.splits prod.splits)

lemma insertsOf_callGraylog: "insertsOf (fst (callGraylog w s direction key)) = []"
  using callGraylog_events [of w s direction key] by auto

lemma usesWindow_callGraylog: "list_all (usesWindow w s) (fst (callGraylog w s direction key))"
  using callGraylog_events [of w s direction key] by (auto simp: graylogRequest_def Let_def)

lemma callGraylog_result:
  "snd (callGraylog w s direction key) = Inr r \<Longrightarrow> \<exists>bytes. r = map_option bytesToGb bytes"
  by (auto simp: callGraylog_def Let_def map_option_case split: option.splits sum.splits prod.splits if_splits)

lemma getBandwidthSums_fetch:
  assumes "snd (callGraylog w s ''down'' (WGKey (Fields m))) = Inr down"
    and "snd (callGraylog w s ''up'' (WGKey (Fields m))) = Inr up"
  shows "getBandwidthSums w s m =
           (fst (callGraylog w s ''down'' (WGKey (Fields m))) @
            fst (callGraylog w s ''up'' (WGKey (Fields m))),
            Inr (bandwidthSums up down))"
  using assms
  by (cases "callGraylog w s ''down'' (WGKey (Fields m))";
      cases "callGraylog w s ''up'' (WGKey (Fields m))")
     (simp add: getBandwidthSums_def)

lemma getBandwidthSums_down_fatal:
  assumes "snd (callGraylog w s ''down'' (WGKey (Fields m))) = Inl err"
  shows "getBandwidthSums w s m = (fst (callGraylog w s ''down'' (WGKey (Fields m))), Inl err)"
  using assms
  by (cases "callGraylog w s ''down'' (WGKey (Fields m))") (simp add: getBandwidthSums_def)

lemma getBandwidthSums_up_fatal:
  assumes "snd (callGraylog w s ''down'' (WGKey (Fields m))) = Inr down"
    and "snd (callGraylog w s ''up'' (WGKey (Fields m))) = Inl err"
  shows "getBandwidthSums w s m =
           (fst (callGraylog w s ''down'' (WGKey (Fields m))) @
            fst (callGraylog w s ''up'' (WGKey (Fields m))), Inl err)"
  using assms
  by (cases "callGraylog w s ''down'' (WGKey (Fields m))";
      cases "callGraylog w s ''up'' (WGKey (Fields m))")
     (simp add: getBandwidthSums_def)

lemma getBandwidthSums_Inr_D:
  assumes "snd (getBandwidthSums w s m) = Inr r"
  obtains up down where "snd (callGraylog w s ''down'' (WGKey (Fields m))) = Inr down"
    and "snd (callGraylog w s ''up'' (WGKey (Fields m))) = Inr up"
    and "r = bandwidthSums up down"
  using assms
  by (cases "callGraylog w s ''down'' (WGKey (Fields m))";
      cases "callGraylog w s ''up'' (WGKey (Fields m))")
     (auto simp: getBandwidthSums_def split: sum.splits)

lemma getBandwidthSums_events:
  "insertsOf (fst (getBandwidthSums w s m)) = []"
  "list_all (usesWindow w s) (fst (getBandwidthSums w s m))"
  using insertsOf_callGraylog [of w s "''down''" "WGKey (Fields m)"]
    insertsOf_callGraylog [of w s "''up''" "WGKey (Fields m)"]
    usesWindow_callGraylog [of w s "''down''" "WGKey (Fields m)"]
    usesWindow_callGraylog [of w s "''up''" "WGKey (Fields m)"]
  by (cases "callGraylog w s ''down'' (WGKey (Fields m))";
      cases "callGraylog w s ''up'' (WGKey (Fields m))";
      auto simp: getBandwidthSums_def insertsOf_append split: sum.splits)+

lemma loopBody_fetch:
  assumes "snd (callGraylog w s ''down'' (WGKey (Fields m))) = Inr down"
    and "snd (callGraylog w s ''up'' (WGKey (Fields m))) = Inr up"
  shows "insertsOf (fst (loopBody w s m)) =
           (if up = None \<and> down = None then []
            else [\<lparr>BandwidthUsagePeriod.Name = trimSpace w (MeshMemberFields.Name (Fields m)),
                   BandwidthUsagePeriod.From = Settings.From s,
                   BandwidthUsagePeriod.To = Settings.To s,
                   BandwidthUsagePeriod.Duration = Settings.Duration s,
                   Up = up, Down = down,
                   Total = snd (snd (bandwidthSums up down))\<rparr>])"
  using insertsOf_callGraylog [of w s "''down''" "WGKey (Fields m)"]
    insertsOf_callGraylog [of w s "''up''" "WGKey (Fields m)"]
  by (cases up; cases down)
     (simp_all add: loopBody_def getBandwidthSums_fetch [OF assms] bandwidthSums_def
        insertsOf_append Let_def)

lemma loopBody_usesWindow: "list_all (usesWindow w s) (fst (loopBody w s m))"
  using getBandwidthSums_events(2) [of w s m]
  by (cases "getBandwidthSums w s m")
     (auto simp: loopBody_def Let_def split: sum.splits prod.splits)

lemma mainLoop_usesWindow: "list_all (usesWindow w s) (fst (mainLoop w s ms))"
proof (induction ms)
  case Nil
  then show ?case by simp
next
  case (Cons m ms)
  then show ?case
    using loopBody_usesWindow [of w s m]
    by (cases "loopBody w s m"; cases "mainLoop w s ms") (auto split: option.splits)
qed

lemma collect_usesWindow: "list_all (usesWindow w s) (fst (collect w s))"
  by (auto simp: collect_def getMeshMembers_def getBWUPCollection_def
      split: option.splits sum.splits prod.splits)
     (metis fst_conv mainLoop_usesWindow)

lemma mainLoop_Done_inserts:
  "snd (mainLoop w s ms) = Done \<Longrightarrow>
   insertsOf (fst (mainLoop w s ms)) = concat (map (\<lambda>m. insertsOf (fst (loopBody w s m))) ms)"
proof (induction ms)
  case Nil
  then show ?case by simp
next
  case (Cons m ms)
  then show ?case
    by (cases "loopBody w s m"; cases "mainLoop w s ms")
       (auto simp: insertsOf_append split: option.splits)
qed

lemma loopBody_fatal:
  "snd (getBandwidthSums w s m) = Inl err \<Longrightarrow>
   loopBody w s m = (fst (getBandwidthSums w s m), Some err)"
  by (cases "getBandwidthSums w s m") (simp add: loopBody_def)

lemma mainLoop_fatal:
  "snd (getBandwidthSums w s m) = Inl err \<Longrightarrow>
   mainLoop w s (m # ms) = (fst (getBandwidthSums w s m), Fatal err)"
  by (simp add: loopBody_fatal)

lemma loopBody_no_insert:
  assumes "snd (callGraylog w s ''down'' (WGKey (Fields m))) = Inr None"
    and "snd (callGraylog w s ''up'' (WGKey (Fields m))) = Inr None"
  shows "loopBody w s m =
           (fst (callGraylog w s ''down'' (WGKey (Fields m))) @
            fst (callGraylog w s ''up'' (WGKey (Fields m))), None)"
  by (simp add: loopBody_def getBandwidthSums_fetch [OF assms] bandwidthSums_cases)

lemma bandwidthSums_converted:
  "bandwidthSums (map_option bytesToGb up) (map_option bytesToGb down) =
     (map_option bytesToGb up, map_option bytesToGb down,
      case (up, down) of
        (None, None) \<Rightarrow> None
      | (Some u, None) \<Rightarrow> Some (bytesToGb u)
      | (None, Some d) \<Rightarrow> Some (bytesToGb d)
      | (Some u, Some d) \<Rightarrow> Some (fadd (bytesToGb d) (bytesToGb u)))"
  by (cases up; cases down) (simp_all add: bandwidthSums_cases fadd_zero_bytesToGb)

lemma round64_0: "round64 0 = Finite 0"
  by (simp add: round64_def)

lemma mainLoop_Cons_ok:
  "snd (loopBody w s m) = None \<Longrightarrow>
   mainLoop w s (m # ms) = (fst (loopBody w s m) @ fst (mainLoop w s ms), snd (mainLoop w s ms))"
  by (cases "loopBody w s m"; cases "mainLoop w s ms") simp

lemma mainLoop_Cons_fatal:
  "snd (loopBody w s m) = Some err \<Longrightarrow> mainLoop w s (m # ms) = (fst (loopBody w s m), Fatal err)"
  by (cases "loopBody w s m") simp

lemma mainLoop_all_ok:
  "list_all (\<lambda>m. snd (loopBody w s m) = None) ms \<Longrightarrow>
   mainLoop w s ms = (concat (map (\<lambda>m. fst (loopBody w s m)) ms), Done)"
proof (induction ms)
  case Nil
  then show ?case by simp
next
  case (Cons m ms)
  then show ?case by (simp add: mainLoop_Cons_ok del: mainLoop.simps)
qed

lemma mainLoop_stops:
  "list_all (\<lambda>m. snd (loopBody w s m) = None) pre \<Longrightarrow> snd (loopBody w s m) = Some err \<Longrightarrow>
   mainLoop w s (pre @ m # post) =
     (concat (map (\<lambda>m. fst (loopBody w s m)) pre) @ fst (loopBody w s m), Fatal err)"
proof (induction pre)
  case Nil
  then show ?case by (simp add: mainLoop_Cons_fatal del: mainLoop.simps)
next
  case (Cons a pre)
  then show ?case by (simp add: mainLoop_Cons_ok del: mainLoop.simps)
qed

lemma mainLoop_Done_iff:
  "snd (mainLoop w s ms) = Done \<longleftrightarrow> list_all (\<lambda>m. snd (loopBody w s m) = None) ms"
proof (induction ms)
  case Nil
  then show ?case by simp
next
  case (Cons m ms)
  show ?case
  proof (cases "snd (loopBody w s m)")
    case None
    then show ?thesis using Cons by (simp add: mainLoop_Cons_ok del: mainLoop.simps)
  next
    case (Some err)
    then show ?thesis by (simp add: mainLoop_Cons_fatal del: mainLoop.simps)
  qed
qed

lemma loopBody_result:
  assumes "snd (callGraylog w s ''down'' (WGKey (Fields m))) = Inr down"
    and "snd (callGraylog w s ''up'' (WGKey (Fields m))) = Inr up"
  shows "snd (loopBody w s m) =
           (if up = None \<and> down = None then None
            else insertOne w
                   \<lparr>BandwidthUsagePeriod.Name = trimSpace w (MeshMemberFields.Name (Fields m)),
                    BandwidthUsagePeriod.From = Settings.From s,
                    BandwidthUsagePeriod.To = Settings.To s,
                    BandwidthUsagePeriod.Duration = Settings.Duration s,
                    Up = up, Down = down,
                    Total = snd (snd (bandwidthSums up down))\<rparr>)"
  by (cases up; cases down)
     (simp_all add: loopBody_def getBandwidthSums_fetch [OF assms] bandwidthSums_cases Let_def)

lemma callGraylog_cases:
  assumes "direction = ''up'' \<or> direction = ''down''"
  shows "callGraylog w s direction key =
     (case newRequest w (graylogRequest w s direction key) of
        Some err \<Rightarrow> ([], Inl err)
      | None \<Rightarrow>
          (case httpGet w (graylogRequest w s direction key) of
             Inl err \<Rightarrow> ([GraylogGet (graylogRequest w s direction key)], Inl err)
           | Inr body \<Rightarrow>
               (GraylogGet (graylogRequest w s direction key) #
                  (case fst (jsonUnmarshal w (Replace body (quote @ ''NaN'' @ quote) ''null'')) of
                     None \<Rightarrow> []
                   | Some e \<Rightarrow> [PrintError (''error: '' @ e)]),
                Inr (map_option bytesToGb
                       (snd (jsonUnmarshal w (Replace body (quote @ ''NaN'' @ quote) ''null'')))))))"
  using assms
  by (auto simp: callGraylog_def map_option_case split: option.splits sum.splits prod.splits)

lemma mainLoop_stops_early:
  "\<not> list_all (\<lambda>m. snd (loopBody w s m) = None) pre \<Longrightarrow>
   mainLoop w s (pre @ post) = mainLoop w s pre"
proof (induction pre)
  case Nil
  then show ?case by simp
next
  case (Cons a pre)
  show ?case
  proof (cases "snd (loopBody w s a)")
    case None
    then show ?thesis using Cons by (simp add: mainLoop_Cons_ok del: mainLoop.simps)
  next
    case (Some err)
    then show ?thesis
      using mainLoop_Cons_fatal [of w s a err] by (simp del: mainLoop.simps)
  qed
qed

subsection \<open>The command line\<close>

lemma sint_uminus_64:
  fixes d :: "64 word"
  assumes "d \<noteq> - 9223372036854775808"
  shows "sint (- d) = - sint d"
proof -
  have ne: "sint d \<noteq> - 9223372036854775808"
  proof
    assume "sint d = - 9223372036854775808"
    then have "sint d = sint (- 9223372036854775808 :: 64 word)" by simp
    then have "d = - 9223372036854775808" by (rule signed_word_eqI)
    with assms show False by simp
  qed
  have lo: "- (2 ^ 63) \<le> sint d" using sint_ge [of d] by simp
  have hi: "sint d < 2 ^ 63" using sint_lt [of d] by simp
  have "sint (- d) = signed_take_bit 63 (- sint d)" by (simp add: sint_word_minus)
  also have "\<dots> = - sint d"
    using ne lo hi by (simp add: signed_take_bit_int_eq_self_iff)
  finally show ?thesis .
qed

lemma configure_short:
  "length args < 2 \<Longrightarrow> configure w args = Inl (PanicIndexOutOfRange 1 (length args))"
  by (simp add: configure_def)

lemma configure_Inr_D:
  assumes "configure w args = Inr s"
  shows "2 \<le> length args"
    and "Settings.Duration s = fst (parseDuration w (args ! 1))"
    and "Settings.From s = Add (Settings.To s) (- Settings.Duration s)"
    and "Settings.To s =
           (if length args = 2 then now w
            else fst (parseTime w ''2006-01-2T15:04:05'' (args ! 2 @ ''T00:00:00'')))"
  using assms
  by (auto simp: configure_def Let_def split: if_splits prod.splits option.splits)

lemma configure_usage:
  assumes "2 \<le> length args"
    and "(if length args = 2 then snd (parseDuration w (args ! 1))
          else snd (parseTime w ''2006-01-2T15:04:05'' (args ! 2 @ ''T00:00:00''))) = Some e"
  shows "configure w args = Inl (Fatal (usageMessage e))"
  using assms
  by (auto simp: configure_def Let_def split: if_splits prod.splits option.splits)

lemma configure_ok:
  assumes "2 \<le> length args"
    and "(if length args = 2 then snd (parseDuration w (args ! 1))
          else snd (parseTime w ''2006-01-2T15:04:05'' (args ! 2 @ ''T00:00:00''))) = None"
  shows "\<exists>s. configure w args = Inr s"
  using assms
  by (auto simp: configure_def Let_def split: if_splits prod.splits option.splits)

lemma main_configured: "configure w args = Inr s \<Longrightarrow> main w args = collect w s"
  by (simp add: main_def)

lemma main_not_configured: "configure w args = Inl x \<Longrightarrow> main w args = ([], x)"
  by (simp add: main_def)

lemma collect_cases:
  assumes "airtableNew w (AirtableAPIKey s) (AirtableBaseID s) = None"
    and "listRecords w (AirtableAPIKey s) (AirtableBaseID s) (AirtableTableName s) = Inr ms"
    and "mongoConnect w (MongoURL s) = None"
  shows "collect w s =
           (PrintSettings s # AirtableList (AirtableTableName s) # MongoConnect (MongoURL s) #
              fst (mainLoop w s ms),
            snd (mainLoop w s ms))"
  using assms
  by (cases "mainLoop w s ms") (simp add: collect_def getMeshMembers_def getBWUPCollection_def)

lemma collect_hd: "hd (fst (collect w s)) = PrintSettings s"
  by (auto simp: collect_def split: prod.splits sum.splits option.splits)

lemma usageExit_usageMessage: "usageExit (Fatal (usageMessage e))"
  by (simp add: usageMessage_def)

subsection \<open>The example world, evaluated\<close>

lemma Replace_examples:
  "Replace (exampleBody ''1000000000'') (quote @ CHR ''N'' # CHR ''a'' # CHR ''N'' # quote) ''null''
     = exampleBody ''1000000000''"
  "Replace (exampleBody ''0'') (quote @ CHR ''N'' # CHR ''a'' # CHR ''N'' # quote) ''null''
     = exampleBody ''0''"
  "Replace (exampleBody (quote @ CHR ''N'' # CHR ''a'' # CHR ''N'' # quote))
     (quote @ CHR ''N'' # CHR ''a'' # CHR ''N'' # quote) ''null'' = exampleBody ''null''"
  "Replace ''<html>Bad Gateway</html>'' (quote @ CHR ''N'' # CHR ''a'' # CHR ''N'' # quote) ''null''
     = ''<html>Bad Gateway</html>''"
  by (simp_all add: Replace_def exampleBody_def quote_def)

lemma exampleWorld_simps:
  "newRequest exampleWorld r = None"
  "insertOne exampleWorld p = None"
  "airtableNew exampleWorld k b = None"
  "mongoConnect exampleWorld u = None"
  "getenv exampleWorld n = n"
  by (simp_all add: exampleWorld_def)

lemma exampleWorld_httpGet:
  "httpGet exampleWorld (graylogRequest exampleWorld s ''up'' ''A'') = Inr (exampleBody ''1000000000'')"
  "httpGet exampleWorld (graylogRequest exampleWorld s ''down'' ''A'') = Inr (exampleBody (quote @ ''NaN'' @ quote))"
  "httpGet exampleWorld (graylogRequest exampleWorld s ''up'' ''B'') = Inr (exampleBody (quote @ ''NaN'' @ quote))"
  "httpGet exampleWorld (graylogRequest exampleWorld s ''down'' ''B'') = Inr (exampleBody (quote @ ''NaN'' @ quote))"
  "httpGet exampleWorld (graylogRequest exampleWorld s ''up'' ''C'') = Inr (exampleBody ''0'')"
  "httpGet exampleWorld (graylogRequest exampleWorld s ''down'' ''C'') = Inr (exampleBody ''0'')"
  "httpGet exampleWorld (graylogRequest exampleWorld s ''up'' ''D'') = Inr ''<html>Bad Gateway</html>''"
  "httpGet exampleWorld (graylogRequest exampleWorld s ''down'' ''D'') = Inr ''<html>Bad Gateway</html>''"
  by (simp_all add: exampleWorld_def graylogRequest_def exampleQuery_def quote_def)

lemma exampleWorld_jsonUnmarshal:
  "jsonUnmarshal exampleWorld (exampleBody ''1000000000'') = (None, Some (Finite 1000000000))"
  "jsonUnmarshal exampleWorld (exampleBody ''0'') = (None, Some (Finite 0))"
  "jsonUnmarshal exampleWorld (exampleBody ''null'') = (None, None)"
  "jsonUnmarshal exampleWorld ''<html>Bad Gateway</html>'' = (Some ''invalid character'', None)"
  by (simp_all add: exampleWorld_def exampleBody_def quote_def)

lemma bytesToGb_0: "bytesToGb (Finite 0) = Finite 0"
  by (simp add: bytesToGb_def round64_def)

lemma example_fetch:
  "callGraylog exampleWorld s ''up'' ''A'' =
     ([GraylogGet (graylogRequest exampleWorld s ''up'' ''A'')], Inr (Some (Finite 1)))"
  "callGraylog exampleWorld s ''down'' ''A'' =
     ([GraylogGet (graylogRequest exampleWorld s ''down'' ''A'')], Inr None)"
  "callGraylog exampleWorld s ''up'' ''B'' =
     ([GraylogGet (graylogRequest exampleWorld s ''up'' ''B'')], Inr None)"
  "callGraylog exampleWorld s ''down'' ''B'' =
     ([GraylogGet (graylogRequest exampleWorld s ''down'' ''B'')], Inr None)"
  "callGraylog exampleWorld s ''up'' ''C'' =
     ([GraylogGet (graylogRequest exampleWorld s ''up'' ''C'')], Inr (Some (Finite 0)))"
  "callGraylog exampleWorld s ''down'' ''C'' =
     ([GraylogGet (graylogRequest exampleWorld s ''down'' ''C'')], Inr (Some (Finite 0)))"
  "callGraylog exampleWorld s ''up'' ''D'' =
     ([GraylogGet (graylogRequest exampleWorld s ''up'' ''D''), PrintError ''error: invalid character''], Inr None)"
  "callGraylog exampleWorld s ''down'' ''D'' =
     ([GraylogGet (graylogRequest exampleWorld s ''down'' ''D''), PrintError ''error: invalid character''], Inr None)"
  by (simp_all add: callGraylog_def exampleWorld_simps exampleWorld_httpGet Replace_examples
      exampleWorld_jsonUnmarshal bytesToGb_1e9 bytesToGb_0)

lemma exampleMember_simps:
  "WGKey (Fields (exampleMember name key)) = key"
  "MeshMemberFields.Name (Fields (exampleMember name key)) = name"
  by (simp_all add: exampleMember_def)

lemma trimSpace_alice: "trimSpace exampleWorld '' alice '' = ''alice''"
  by (simp add: exampleWorld_def)

lemma loopBody_alice:
  "snd (loopBody exampleWorld s (exampleMember '' alice '' ''A'')) = None"
  by (simp add: loopBody_def getBandwidthSums_def example_fetch exampleMember_simps
      bandwidthSums_cases exampleWorld_simps Let_def)

lemma exampleWorld_parse:
  "parseDuration exampleWorld ''24h'' = (86400000000000, None)"
  "parseDuration exampleWorld ''-1h'' = (- 3600000000000, None)"
  "parseDuration exampleWorld ''-2562047h47m16.854775808s'' = (- 9223372036854775808, None)"
  "parseDuration exampleWorld ''abc'' = (0, Some (''time: invalid duration '' @ quote @ ''abc'' @ quote))"
  "parseTime exampleWorld ''2006-01-2T15:04:05'' ''2024-01-02T00:00:00'' = (civil 2024 1 2, None)"
  "now exampleWorld = civil 2024 3 1 + 45296 * 1000000000"
  by (simp_all add: exampleWorld_def)

lemma civil_examples:
  "civil 2024 1 1 = 1704067200 * 1000000000"
  "civil 2024 1 2 = 1704153600 * 1000000000"
  "civil 2024 3 1 = 1709251200 * 1000000000"
  "civil 1970 1 1 = 0"
  "civil 1 1 1 = zeroTime"
  by (simp_all add: civil_def zeroTime_def)

lemma formatUTC_examples:
  "formatUTC (1704067200 * 1000000000) = ''2024-01-1T00:00:00.000Z''"
  "formatUTC (1704153600 * 1000000000) = ''2024-01-2T00:00:00.000Z''"
  "formatUTC (1709251200 * 1000000000 + 45296 * 1000000000) = ''2024-03-1T12:34:56.000Z''"
  by code_simp+

lemma example_formatTime:
  "formatTime exampleWorld (civil 2024 1 1) ''2006-01-2T15:04:05.000Z'' = ''2024-01-1T00:00:00.000Z''"
  "formatTime exampleWorld (civil 2024 1 2) ''2006-01-2T15:04:05.000Z'' = ''2024-01-2T00:00:00.000Z''"
  "formatTime exampleWorld (civil 2024 3 1 + 45296 * 1000000000) ''2006-01-2T15:04:05.000Z''
     = ''2024-03-1T12:34:56.000Z''"
  using formatUTC_examples by (simp_all add: exampleWorld_def civil_examples)

lemma example_configure:
  "configure exampleWorld [''stat-collector'', ''24h'', ''2024-01-02''] = Inr exampleSettings"
  by (simp add: configure_def exampleWorld_parse exampleWorld_simps exampleSettings_def Add_def
      civil_examples)

lemma example_configure_abc:
  "configure exampleWorld [''stat-collector'', ''abc'', ''2024-01-02'']
     = Inr (exampleSettings\<lparr>Settings.From := civil 2024 1 2, Settings.Duration := 0\<rparr>)"
  by (simp add: configure_def exampleWorld_parse exampleWorld_simps exampleSettings_def Add_def)

lemma example_configure_min:
  "configure exampleWorld [''stat-collector'', ''-2562047h47m16.854775808s'', ''2024-01-02'']
     = Inr (exampleSettings\<lparr>Settings.From := civil 2024 1 2 - 9223372036854775808,
                             Settings.Duration := - 9223372036854775808\<rparr>)"
  by (simp add: configure_def exampleWorld_parse exampleWorld_simps exampleSettings_def Add_def)

lemma example_configure_neg:
  "configure exampleWorld [''stat-collector'', ''-1h'']
     = Inr (exampleSettings\<lparr>Settings.From := civil 2024 3 1 + 48896 * 1000000000,
                             Settings.To := civil 2024 3 1 + 45296 * 1000000000,
                             Settings.Duration := - 3600000000000\<rparr>)"
  by (simp add: configure_def exampleWorld_parse exampleWorld_simps exampleSettings_def Add_def)

lemma example_configure_usage:
  "configure exampleWorld [''stat-collector'', ''abc'']
     = Inl (Fatal (usageMessage (''time: invalid duration '' @ quote @ ''abc'' @ quote)))"
  by (simp add: configure_def exampleWorld_parse)

lemma httpGet_example_Inr: "\<exists>body. httpGet exampleWorld r = Inr body"
  by (simp add: exampleWorld_def)

lemma callGraylog_example_Inr:
  assumes "direction = ''up'' \<or> direction = ''down''"
  shows "\<exists>r. snd (callGraylog exampleWorld s direction key) = Inr r"
proof -
  obtain body where "httpGet exampleWorld (graylogRequest exampleWorld s direction key) = Inr body"
    using httpGet_example_Inr by blast
  then show ?thesis
    using assms by (auto simp: callGraylog_def exampleWorld_simps split: prod.splits)
qed

lemma loopBody_example: "snd (loopBody exampleWorld s m) = None"
proof -
  obtain d where d: "snd (callGraylog exampleWorld s ''down'' (WGKey (Fields m))) = Inr d"
    using callGraylog_example_Inr [of "''down''" s] by auto
  obtain u where u: "snd (callGraylog exampleWorld s ''up'' (WGKey (Fields m))) = Inr u"
    using callGraylog_example_Inr [of "''up''" s] by auto
  show ?thesis
    by (cases "bandwidthSums u d")
       (simp add: loopBody_def getBandwidthSums_fetch [OF d u] exampleWorld_simps Let_def)
qed

lemma mainLoop_example: "snd (mainLoop exampleWorld s ms) = Done"
proof (induction ms)
  case Nil
  then show ?case by simp
next
  case (Cons m ms)
  then show ?case
    using loopBody_example [of s m]
    by (cases "loopBody exampleWorld s m"; cases "mainLoop exampleWorld s ms") simp
qed

lemma exampleWorld_listRecords:
  "listRecords exampleWorld k b t =
     Inr [exampleMember '' alice '' ''A'', exampleMember ''bob'' ''B'',
          exampleMember ''carol'' ''C'', exampleMember ''dave'' ''D'']"
  by (simp add: exampleWorld_def)

lemma collect_example:
  "collect exampleWorld s =
     (PrintSettings s # AirtableList (AirtableTableName s) # MongoConnect (MongoURL s) #
        fst (mainLoop exampleWorld s
               [exampleMember '' alice '' ''A'', exampleMember ''bob'' ''B'',
                exampleMember ''carol'' ''C'', exampleMember ''dave'' ''D'']),
      Done)"
  using collect_cases [OF exampleWorld_simps(3) exampleWorld_listRecords exampleWorld_simps(4),
      of s]
  by (simp add: mainLoop_example del: mainLoop.simps)

lemma example_inserts:
  "map BandwidthUsagePeriod.Name (insertsOf (fst (loopBody exampleWorld s (exampleMember '' alice '' ''A''))))
     = [''alice'']"
  "insertsOf (fst (loopBody exampleWorld s (exampleMember ''bob'' ''B''))) = []"
  "map BandwidthUsagePeriod.Name (insertsOf (fst (loopBody exampleWorld s (exampleMember ''carol'' ''C''))))
     = [''carol'']"
  "insertsOf (fst (loopBody exampleWorld s (exampleMember ''dave'' ''D''))) = []"
proof -
  show "map BandwidthUsagePeriod.Name (insertsOf (fst (loopBody exampleWorld s (exampleMember '' alice '' ''A''))))
     = [''alice'']"
    using loopBody_fetch [of exampleWorld s "exampleMember '' alice '' ''A''" None "Some (Finite 1)"]
    by (simp add: exampleMember_simps example_fetch trimSpace_alice)
  show "insertsOf (fst (loopBody exampleWorld s (exampleMember ''bob'' ''B''))) = []"
    using loopBody_fetch [of exampleWorld s "exampleMember ''bob'' ''B''" None None]
    by (simp add: exampleMember_simps example_fetch)
  show "map BandwidthUsagePeriod.Name (insertsOf (fst (loopBody exampleWorld s (exampleMember ''carol'' ''C''))))
     = [''carol'']"
    using loopBody_fetch [of exampleWorld s "exampleMember ''carol'' ''C''" "Some (Finite 0)" "Some (Finite 0)"]
    by (simp add: exampleMember_simps example_fetch) (simp add: exampleWorld_def)
  show "insertsOf (fst (loopBody exampleWorld s (exampleMember ''dave'' ''D''))) = []"
    using loopBody_fetch [of exampleWorld s "exampleMember ''dave'' ''D''" None None]
    by (simp add: exampleMember_simps example_fetch)
qed

lemma collect_example_inserts:
  "map BandwidthUsagePeriod.Name (insertsOf (fst (collect exampleWorld s))) = [''alice'', ''carol'']"
proof -
  have "insertsOf (fst (collect exampleWorld s)) =
      insertsOf (fst (mainLoop exampleWorld s
               [exampleMember '' alice '' ''A'', exampleMember ''bob'' ''B'',
                exampleMember ''carol'' ''C'', exampleMember ''dave'' ''D'']))"
    by (simp add: collect_example del: mainLoop.simps)
  also have "\<dots> = concat (map (\<lambda>m. insertsOf (fst (loopBody exampleWorld s m)))
               [exampleMember '' alice '' ''A'', exampleMember ''bob'' ''B'',
                exampleMember ''carol'' ''C'', exampleMember ''dave'' ''D''])"
    by (rule mainLoop_Done_inserts) (rule mainLoop_example)
  finally show ?thesis by (simp add: example_inserts)
qed

lemma collect_example_network: "list_ex isNetwork (fst (collect exampleWorld s))"
  by (simp add: collect_example del: mainLoop.simps)

lemma trimSpace_example:
  "trimSpace exampleWorld ''carol'' = ''carol''"
  by (simp add: exampleWorld_def)

subsection \<open>The total of the aggregation\<close>

text \<open>
  Claim C3, as stated, fails when \<open>Total\<close> is read as the sum of the present byte
  counts, converted: with 1 byte uploaded and 2 bytes downloaded the aggregation returns
  \<open>3.0000000000000004e-09\<close>, and the 3 bytes converted are \<open>3e-09\<close>.
\<close>

theorem total_is_not_converted_byte_sum:
  "snd (snd (bandwidthSums (map_option bytesToGb (Some (Finite 1)))
                           (map_option bytesToGb (Some (Finite 2)))))
     = Some (Finite (226673591177743 / 75557863725914323419136)) \<and>
   Some (bytesToGb (fadd (Finite 2) (Finite 1)))
     = Some (Finite (7253554917687775 / 2417851639229258349412352)) \<and>
   snd (snd (bandwidthSums (map_option bytesToGb (Some (Finite 1)))
                           (map_option bytesToGb (Some (Finite 2)))))
     \<noteq> Some (bytesToGb (fadd (Finite 2) (Finite 1)))"
  using code_total_1_2 by (simp add: round64_3 bytesToGb_3)

text \<open>
  Claim C3, amended: for every pair of optional byte counts, each converted to gigabytes
  as \<open>callGraylog\<close> returns it, the aggregation returns \<open>Up\<close> and \<open>Down\<close> as they came
  (an absent one stays absent) and, when at least one is present, a present \<open>Total\<close>:
  the present converted value when there is one, and for two the float64 sum of the two
  values, each converted before the addition. \<open>Total\<close> is absent only when both are.
  The conversion of a finite count is its quotient by 1000000000, rounded; so
  1000000000 bytes alone give a total of 1, 2500000000 bytes alone 2.5, two zeros 0.
\<close>

theorem total_is_sum_of_converted:
  "bandwidthSums (map_option bytesToGb up) (map_option bytesToGb down) =
     (map_option bytesToGb up, map_option bytesToGb down,
      case (up, down) of
        (None, None) \<Rightarrow> None
      | (Some u, None) \<Rightarrow> Some (bytesToGb u)
      | (None, Some d) \<Rightarrow> Some (bytesToGb d)
      | (Some u, Some d) \<Rightarrow> Some (fadd (bytesToGb d) (bytesToGb u))) \<and>
   bytesToGb (Finite a) = round64 (a / 1000000000) \<and>
   bandwidthSums (map_option bytesToGb (Some (Finite 1000000000))) (map_option bytesToGb None) =
     (Some (Finite 1), None, Some (Finite 1)) \<and>
   bandwidthSums (map_option bytesToGb None) (map_option bytesToGb (Some (Finite 2500000000))) =
     (None, Some (Finite (5 / 2)), Some (Finite (5 / 2))) \<and>
   bandwidthSums (map_option bytesToGb (Some (Finite 0))) (map_option bytesToGb (Some (Finite 0))) =
     (Some (Finite 0), Some (Finite 0), Some (Finite 0)) \<and>
   bandwidthSums (map_option bytesToGb (Some (Finite 1))) (map_option bytesToGb (Some (Finite 2))) =
     (Some (Finite (4835703278458517 / 4835703278458516698824704)),
      Some (Finite (4835703278458517 / 2417851639229258349412352)),
      Some (Finite (226673591177743 / 75557863725914323419136)))"
proof -
  have a: "bandwidthSums (map_option bytesToGb (Some (Finite 1000000000))) (map_option bytesToGb None) =
     (Some (Finite 1), None, Some (Finite 1))"
    using bandwidthSums_converted [of "Some (Finite 1000000000)" None]
    by (simp add: bytesToGb_1e9)
  have b: "bandwidthSums (map_option bytesToGb None) (map_option bytesToGb (Some (Finite 2500000000))) =
     (None, Some (Finite (5 / 2)), Some (Finite (5 / 2)))"
    using bandwidthSums_converted [of None "Some (Finite 2500000000)"]
    by (simp add: bytesToGb_2500000000)
  have c: "bandwidthSums (map_option bytesToGb (Some (Finite 0))) (map_option bytesToGb (Some (Finite 0))) =
     (Some (Finite 0), Some (Finite 0), Some (Finite 0))"
    using bandwidthSums_converted [of "Some (Finite 0)" "Some (Finite 0)"]
    by (simp add: bytesToGb_0 round64_0)
  from bandwidthSums_converted bytesToGb_Finite a b c code_total_1_2 show ?thesis
    by (intro conjI)
qed

subsection \<open>One period for each active member\<close>

text \<open>
  Claim C2: for every member whose two queries return, with the optional byte counts
  \<open>up\<close> and \<open>down\<close>, the body of the loop calls \<open>InsertOne\<close> exactly once when at least
  one count is present and not at all when both are absent, and it is fatal only when
  that call fails. The inserted period has \<open>Up\<close> and \<open>Down\<close> as fetched (an absent one
  stays absent) and \<open>Total\<close> the present value, or the sum of the two; two present zeros
  give \<open>Total = 0\<close>. The loop runs the body for every member of the roster, in order:
  it ends normally exactly when no body is fatal, and then its events are those of the
  bodies, one member after the other, so that it has inserted exactly their periods; it
  stops at the first member whose body is fatal, with nothing done for the members after.
\<close>

theorem period_inserted_iff_active:
  assumes "snd (callGraylog w s ''down'' (WGKey (Fields m))) = Inr (map_option bytesToGb down)"
    and "snd (callGraylog w s ''up'' (WGKey (Fields m))) = Inr (map_option bytesToGb up)"
  defines "period \<equiv>
             \<lparr>BandwidthUsagePeriod.Name = trimSpace w (MeshMemberFields.Name (Fields m)),
              BandwidthUsagePeriod.From = Settings.From s,
              BandwidthUsagePeriod.To = Settings.To s,
              BandwidthUsagePeriod.Duration = Settings.Duration s,
              Up = map_option bytesToGb up,
              Down = map_option bytesToGb down,
              Total = (case (up, down) of
                         (None, None) \<Rightarrow> None
                       | (Some u, None) \<Rightarrow> Some (bytesToGb u)
                       | (None, Some d) \<Rightarrow> Some (bytesToGb d)
                       | (Some u, Some d) \<Rightarrow> Some (fadd (bytesToGb d) (bytesToGb u)))\<rparr>"
  shows "insertsOf (fst (loopBody w s m)) = (if up = None \<and> down = None then [] else [period]) \<and>
         snd (loopBody w s m) = (if up = None \<and> down = None then None else insertOne w period) \<and>
         (up = Some (Finite 0) \<and> down = Some (Finite 0) \<longrightarrow>
            map Total (insertsOf (fst (loopBody w s m))) = [Some (Finite 0)]) \<and>
         (snd (mainLoop w s ms) = Done) = list_all (\<lambda>m. snd (loopBody w s m) = None) ms \<and>
         (list_all (\<lambda>m. snd (loopBody w s m) = None) ms \<longrightarrow>
            mainLoop w s ms = (concat (map (\<lambda>m. fst (loopBody w s m)) ms), Done)) \<and>
         (list_all (\<lambda>m. snd (loopBody w s m) = None) pre \<and> snd (loopBody w s m') = Some err \<longrightarrow>
            mainLoop w s (pre @ m' # post) =
              (concat (map (\<lambda>m. fst (loopBody w s m)) pre) @ fst (loopBody w s m'), Fatal err)) \<and>
         (snd (mainLoop w s ms) = Done \<longrightarrow>
            insertsOf (fst (mainLoop w s ms)) =
              concat (map (\<lambda>m. insertsOf (fst (loopBody w s m))) ms))"
proof -
  have body: "insertsOf (fst (loopBody w s m)) = (if up = None \<and> down = None then [] else [period])"
    by (simp add: loopBody_fetch [OF assms(1,2)] bandwidthSums_converted period_def)
  have res: "snd (loopBody w s m) = (if up = None \<and> down = None then None else insertOne w period)"
    by (simp add: loopBody_result [OF assms(1,2)] bandwidthSums_converted period_def)
  have zero: "up = Some (Finite 0) \<and> down = Some (Finite 0) \<longrightarrow>
            map Total (insertsOf (fst (loopBody w s m))) = [Some (Finite 0)]"
    by (simp add: body period_def bytesToGb_0 round64_0)
  have fin: "(snd (mainLoop w s ms) = Done) = list_all (\<lambda>m. snd (loopBody w s m) = None) ms"
    by (rule mainLoop_Done_iff)
  have all: "list_all (\<lambda>m. snd (loopBody w s m) = None) ms \<longrightarrow>
            mainLoop w s ms = (concat (map (\<lambda>m. fst (loopBody w s m)) ms), Done)"
    using mainLoop_all_ok by blast
  have stop: "list_all (\<lambda>m. snd (loopBody w s m) = None) pre \<and> snd (loopBody w s m') = Some err \<longrightarrow>
            mainLoop w s (pre @ m' # post) =
              (concat (map (\<lambda>m. fst (loopBody w s m)) pre) @ fst (loopBody w s m'), Fatal err)"
    using mainLoop_stops by blast
  have run: "snd (mainLoop w s ms) = Done \<longrightarrow>
            insertsOf (fst (mainLoop w s ms)) =
              concat (map (\<lambda>m. insertsOf (fst (loopBody w s m))) ms)"
    by (simp add: mainLoop_Done_inserts)
  from body res zero fin all stop run show ?thesis by (intro conjI)
qed

text \<open>
  The witness for C2, the loop over the roster of the example world: it ends normally
  and has inserted one period for alice (1000000000 bytes uploaded, nothing
  downloaded) and one with \<open>Total = 0\<close> for carol (zero bytes both ways), none for bob
  (nothing either way) and none for dave.
\<close>

theorem period_inserted_witness:
  "snd (mainLoop exampleWorld exampleSettings
          [exampleMember '' alice '' ''A'', exampleMember ''bob'' ''B'',
           exampleMember ''carol'' ''C'', exampleMember ''dave'' ''D'']) = Done \<and>
   insertsOf (fst (mainLoop exampleWorld exampleSettings
          [exampleMember '' alice '' ''A'', exampleMember ''bob'' ''B'',
           exampleMember ''carol'' ''C'', exampleMember ''dave'' ''D''])) =
     [\<lparr>BandwidthUsagePeriod.Name = ''alice'',
       BandwidthUsagePeriod.From = civil 2024 1 1,
       BandwidthUsagePeriod.To = civil 2024 1 2,
       BandwidthUsagePeriod.Duration = 86400000000000,
       Up = Some (Finite 1), Down = None, Total = Some (Finite 1)\<rparr>,
      \<lparr>BandwidthUsagePeriod.Name = ''carol'',
       BandwidthUsagePeriod.From = civil 2024 1 1,
       BandwidthUsagePeriod.To = civil 2024 1 2,
       BandwidthUsagePeriod.Duration = 86400000000000,
       Up = Some (Finite 0), Down = Some (Finite 0), Total = Some (Finite 0)\<rparr>] \<and>
   insertsOf (fst (loopBody exampleWorld exampleSettings (exampleMember ''bob'' ''B''))) = [] \<and>
   insertsOf (fst (loopBody exampleWorld exampleSettings (exampleMember ''dave'' ''D''))) = []"
proof -
  let ?roster = "[exampleMember '' alice '' ''A'', exampleMember ''bob'' ''B'',
           exampleMember ''carol'' ''C'', exampleMember ''dave'' ''D'']"
  have ok: "list_all (\<lambda>m. snd (loopBody exampleWorld exampleSettings m) = None) ?roster"
    by (simp add: loopBody_example)
  have ha: "snd (callGraylog exampleWorld exampleSettings ''down''
               (WGKey (Fields (exampleMember '' alice '' ''A'')))) = Inr (map_option bytesToGb None)"
    "snd (callGraylog exampleWorld exampleSettings ''up''
               (WGKey (Fields (exampleMember '' alice '' ''A''))))
       = Inr (map_option bytesToGb (Some (Finite 1000000000)))"
    by (simp_all add: exampleMember_simps example_fetch bytesToGb_1e9)
  note ta = period_inserted_iff_active [OF ha, where ms = ?roster]
  have fin: "snd (mainLoop exampleWorld exampleSettings ?roster) = Done"
    using ta ok by blast
  have run: "insertsOf (fst (mainLoop exampleWorld exampleSettings ?roster)) =
      concat (map (\<lambda>m. insertsOf (fst (loopBody exampleWorld exampleSettings m))) ?roster)"
    using ta fin by blast
  have a: "insertsOf (fst (loopBody exampleWorld exampleSettings (exampleMember '' alice '' ''A''))) =
     [\<lparr>BandwidthUsagePeriod.Name = ''alice'',
       BandwidthUsagePeriod.From = civil 2024 1 1,
       BandwidthUsagePeriod.To = civil 2024 1 2,
       BandwidthUsagePeriod.Duration = 86400000000000,
       Up = Some (Finite 1), Down = None, Total = Some (Finite 1)\<rparr>]"
    using ta
    by (simp add: exampleMember_simps bytesToGb_1e9 trimSpace_alice del: mainLoop.simps)
       (simp add: exampleSettings_def)
  have hb: "snd (callGraylog exampleWorld exampleSettings ''down''
               (WGKey (Fields (exampleMember ''bob'' ''B'')))) = Inr (map_option bytesToGb None)"
    "snd (callGraylog exampleWorld exampleSettings ''up''
               (WGKey (Fields (exampleMember ''bob'' ''B'')))) = Inr (map_option bytesToGb None)"
    by (simp_all add: exampleMember_simps example_fetch)
  have b: "insertsOf (fst (loopBody exampleWorld exampleSettings (exampleMember ''bob'' ''B''))) = []"
    using period_inserted_iff_active [OF hb, where ms = "[]"] by simp
  have hc: "snd (callGraylog exampleWorld exampleSettings ''down''
               (WGKey (Fields (exampleMember ''carol'' ''C''))))
       = Inr (map_option bytesToGb (Some (Finite 0)))"
    "snd (callGraylog exampleWorld exampleSettings ''up''
               (WGKey (Fields (exampleMember ''carol'' ''C''))))
       = Inr (map_option bytesToGb (Some (Finite 0)))"
    by (simp_all add: exampleMember_simps example_fetch bytesToGb_0)
  have c: "insertsOf (fst (loopBody exampleWorld exampleSettings (exampleMember ''carol'' ''C''))) =
     [\<lparr>BandwidthUsagePeriod.Name = ''carol'',
       BandwidthUsagePeriod.From = civil 2024 1 1,
       BandwidthUsagePeriod.To = civil 2024 1 2,
       BandwidthUsagePeriod.Duration = 86400000000000,
       Up = Some (Finite 0), Down = Some (Finite 0), Total = Some (Finite 0)\<rparr>]"
    using period_inserted_iff_active [OF hc, where ms = "[]"]
    by (simp add: exampleMember_simps bytesToGb_0 round64_0 trimSpace_example)
       (simp add: exampleSettings_def)
  have hd: "snd (callGraylog exampleWorld exampleSettings ''down''
               (WGKey (Fields (exampleMember ''dave'' ''D'')))) = Inr (map_option bytesToGb None)"
    "snd (callGraylog exampleWorld exampleSettings ''up''
               (WGKey (Fields (exampleMember ''dave'' ''D'')))) = Inr (map_option bytesToGb None)"
    by (simp_all add: exampleMember_simps example_fetch)
  have d: "insertsOf (fst (loopBody exampleWorld exampleSettings (exampleMember ''dave'' ''D''))) = []"
    using period_inserted_iff_active [OF hd, where ms = "[]"] by simp
  have ins: "insertsOf (fst (mainLoop exampleWorld exampleSettings ?roster)) =
     [\<lparr>BandwidthUsagePeriod.Name = ''alice'',
       BandwidthUsagePeriod.From = civil 2024 1 1,
       BandwidthUsagePeriod.To = civil 2024 1 2,
       BandwidthUsagePeriod.Duration = 86400000000000,
       Up = Some (Finite 1), Down = None, Total = Some (Finite 1)\<rparr>,
      \<lparr>BandwidthUsagePeriod.Name = ''carol'',
       BandwidthUsagePeriod.From = civil 2024 1 1,
       BandwidthUsagePeriod.To = civil 2024 1 2,
       BandwidthUsagePeriod.Duration = 86400000000000,
       Up = Some (Finite 0), Down = Some (Finite 0), Total = Some (Finite 0)\<rparr>]"
    by (simp only: run list.map concat.simps a b c d append.simps)
  from fin ins b d show ?thesis by (intro conjI)
qed

subsection \<open>A query that fails\<close>

text \<open>
  Claim C4, as stated, fails: Graylog answers the queries about dave with a page that
  \<open>json.Unmarshal\<close> rejects; \<open>callGraylog\<close> returns the nil pointer, and the loop goes on
  to alice and ends without a fatal error.
\<close>

theorem bad_json_is_not_fatal:
  "httpGet exampleWorld (graylogRequest exampleWorld exampleSettings ''down'' ''D'') = Inr ''<html>Bad Gateway</html>'' \<and>
   fst (jsonUnmarshal exampleWorld
          (Replace ''<html>Bad Gateway</html>'' (quote @ ''NaN'' @ quote) ''null''))
     = Some ''invalid character'' \<and>
   snd (callGraylog exampleWorld exampleSettings ''down'' ''D'') = Inr None \<and>
   snd (mainLoop exampleWorld exampleSettings
          [exampleMember ''dave'' ''D'', exampleMember '' alice '' ''A'']) = Done \<and>
   map BandwidthUsagePeriod.Name
     (insertsOf (fst (mainLoop exampleWorld exampleSettings
          [exampleMember ''dave'' ''D'', exampleMember '' alice '' ''A''])))
     = [''alice'']"
proof -
  have dave: "loopBody exampleWorld exampleSettings (exampleMember ''dave'' ''D'') =
      (fst (callGraylog exampleWorld exampleSettings ''down'' ''D'') @
       fst (callGraylog exampleWorld exampleSettings ''up'' ''D''), None)"
    using loopBody_no_insert [of exampleWorld exampleSettings "exampleMember ''dave'' ''D''"]
    by (simp add: exampleMember_simps example_fetch)
  have alice: "insertsOf (fst (loopBody exampleWorld exampleSettings (exampleMember '' alice '' ''A'')))
      = [\<lparr>BandwidthUsagePeriod.Name = ''alice'',
       BandwidthUsagePeriod.From = Settings.From exampleSettings,
       BandwidthUsagePeriod.To = Settings.To exampleSettings,
       BandwidthUsagePeriod.Duration = Settings.Duration exampleSettings,
       Up = Some (Finite 1), Down = None, Total = Some (Finite 1)\<rparr>]"
    using loopBody_fetch [of exampleWorld exampleSettings "exampleMember '' alice '' ''A''"
        None "Some (Finite 1)"] fadd_zero_bytesToGb [of "Finite 1000000000"]
    by (simp add: exampleMember_simps example_fetch trimSpace_alice bandwidthSums_cases
        bytesToGb_1e9)
  have fin: "snd (mainLoop exampleWorld exampleSettings
          [exampleMember ''dave'' ''D'', exampleMember '' alice '' ''A'']) = Done"
    using loopBody_alice [of exampleSettings]
    by (cases "loopBody exampleWorld exampleSettings (exampleMember '' alice '' ''A'')")
       (simp add: dave)
  have ins: "map BandwidthUsagePeriod.Name
     (insertsOf (fst (mainLoop exampleWorld exampleSettings
          [exampleMember ''dave'' ''D'', exampleMember '' alice '' ''A''])))
     = [''alice'']"
    using insertsOf_callGraylog [of exampleWorld exampleSettings "''down''" "''D''"]
      insertsOf_callGraylog [of exampleWorld exampleSettings "''up''" "''D''"]
    by (simp add: mainLoop_Done_inserts [OF fin] dave alice insertsOf_append
        del: mainLoop.simps)
  have j: "fst (jsonUnmarshal exampleWorld
          (Replace ''<html>Bad Gateway</html>'' (quote @ ''NaN'' @ quote) ''null''))
     = Some ''invalid character''"
    by (simp add: Replace_examples exampleWorld_jsonUnmarshal)
  have h: "httpGet exampleWorld (graylogRequest exampleWorld exampleSettings ''down'' ''D'')
      = Inr ''<html>Bad Gateway</html>''"
    by (simp add: exampleWorld_httpGet)
  have c: "snd (callGraylog exampleWorld exampleSettings ''down'' ''D'') = Inr None"
    by (simp add: example_fetch)
  from h j c fin ins show ?thesis by (intro conjI)
qed

text \<open>
  Claim C4, amended: a query whose request cannot be built, or whose transport fails, is
  fatal in \<open>callGraylog\<close>, hence in \<open>getBandwidthSums\<close>, and the loop stops at that member
  with nothing done for the members after it. A response that \<open>json.Unmarshal\<close> rejects
  is not fatal: the error is printed, and \<open>callGraylog\<close> returns the \<open>Sum\<close> the decoder
  left, converted (the nil pointer when it left none); when both sums of a member are
  nil the loop goes on with the following members.
\<close>

theorem failed_query_fatal_bad_json_reported:
  fixes w :: world and s :: Settings and key :: string
  assumes "direction = ''up'' \<or> direction = ''down''"
  defines "req \<equiv> graylogRequest w s direction key"
  shows "(newRequest w req = Some err \<longrightarrow> callGraylog w s direction key = ([], Inl err)) \<and>
         (newRequest w req = None \<and> httpGet w req = Inl err \<longrightarrow>
            callGraylog w s direction key = ([GraylogGet req], Inl err)) \<and>
         (newRequest w req = None \<and> httpGet w req = Inr body \<and>
          jsonUnmarshal w (Replace body (quote @ ''NaN'' @ quote) ''null'') = (Some e, resSum) \<longrightarrow>
            callGraylog w s direction key =
              ([GraylogGet req, PrintError (''error: '' @ e)], Inr (map_option bytesToGb resSum))) \<and>
         (snd (callGraylog w s ''down'' (WGKey (Fields m))) = Inl err \<longrightarrow>
            getBandwidthSums w s m = (fst (callGraylog w s ''down'' (WGKey (Fields m))), Inl err)) \<and>
         (snd (callGraylog w s ''down'' (WGKey (Fields m))) = Inr down \<and>
          snd (callGraylog w s ''up'' (WGKey (Fields m))) = Inl err \<longrightarrow>
            getBandwidthSums w s m =
              (fst (callGraylog w s ''down'' (WGKey (Fields m))) @
               fst (callGraylog w s ''up'' (WGKey (Fields m))), Inl err)) \<and>
         (snd (getBandwidthSums w s m) = Inl err \<longrightarrow>
            mainLoop w s (pre @ m # post) =
              (if list_all (\<lambda>m. snd (loopBody w s m) = None) pre
               then (concat (map (\<lambda>m. fst (loopBody w s m)) pre) @ fst (getBandwidthSums w s m),
                     Fatal err)
               else mainLoop w s pre)) \<and>
         (snd (callGraylog w s ''down'' (WGKey (Fields m))) = Inr None \<and>
          snd (callGraylog w s ''up'' (WGKey (Fields m))) = Inr None \<longrightarrow>
            mainLoop w s (m # ms) =
              (fst (callGraylog w s ''down'' (WGKey (Fields m))) @
               fst (callGraylog w s ''up'' (WGKey (Fields m))) @ fst (mainLoop w s ms),
               snd (mainLoop w s ms)))"
proof -
  note cg = callGraylog_cases [OF assms(1), of w s key]
  have a: "newRequest w req = Some err \<longrightarrow> callGraylog w s direction key = ([], Inl err)"
    by (simp add: cg req_def)
  have b: "newRequest w req = None \<and> httpGet w req = Inl err \<longrightarrow>
            callGraylog w s direction key = ([GraylogGet req], Inl err)"
    by (simp add: cg req_def)
  have c: "newRequest w req = None \<and> httpGet w req = Inr body \<and>
          jsonUnmarshal w (Replace body (quote @ ''NaN'' @ quote) ''null'') = (Some e, resSum) \<longrightarrow>
            callGraylog w s direction key =
              ([GraylogGet req, PrintError (''error: '' @ e)], Inr (map_option bytesToGb resSum))"
    by (simp add: cg req_def)
  have d: "snd (callGraylog w s ''down'' (WGKey (Fields m))) = Inl err \<longrightarrow>
            getBandwidthSums w s m = (fst (callGraylog w s ''down'' (WGKey (Fields m))), Inl err)"
    using getBandwidthSums_down_fatal by blast
  have e: "snd (callGraylog w s ''down'' (WGKey (Fields m))) = Inr down \<and>
          snd (callGraylog w s ''up'' (WGKey (Fields m))) = Inl err \<longrightarrow>
            getBandwidthSums w s m =
              (fst (callGraylog w s ''down'' (WGKey (Fields m))) @
               fst (callGraylog w s ''up'' (WGKey (Fields m))), Inl err)"
    using getBandwidthSums_up_fatal by blast
  have f: "snd (getBandwidthSums w s m) = Inl err \<longrightarrow>
            mainLoop w s (pre @ m # post) =
              (if list_all (\<lambda>m. snd (loopBody w s m) = None) pre
               then (concat (map (\<lambda>m. fst (loopBody w s m)) pre) @ fst (getBandwidthSums w s m),
                     Fatal err)
               else mainLoop w s pre)"
  proof
    assume fatal: "snd (getBandwidthSums w s m) = Inl err"
    then have lb: "loopBody w s m = (fst (getBandwidthSums w s m), Some err)"
      by (rule loopBody_fatal)
    show "mainLoop w s (pre @ m # post) =
              (if list_all (\<lambda>m. snd (loopBody w s m) = None) pre
               then (concat (map (\<lambda>m. fst (loopBody w s m)) pre) @ fst (getBandwidthSums w s m),
                     Fatal err)
               else mainLoop w s pre)"
    proof (cases "list_all (\<lambda>m. snd (loopBody w s m) = None) pre")
      case True
      then show ?thesis using mainLoop_stops [OF True, of m err post] lb by simp
    next
      case False
      then show ?thesis by (simp add: mainLoop_stops_early)
    qed
  qed
  have g: "snd (callGraylog w s ''down'' (WGKey (Fields m))) = Inr None \<and>
          snd (callGraylog w s ''up'' (WGKey (Fields m))) = Inr None \<longrightarrow>
            mainLoop w s (m # ms) =
              (fst (callGraylog w s ''down'' (WGKey (Fields m))) @
               fst (callGraylog w s ''up'' (WGKey (Fields m))) @ fst (mainLoop w s ms),
               snd (mainLoop w s ms))"
    by (cases "mainLoop w s ms") (auto simp: loopBody_no_insert)
  from a b c d e f g show ?thesis by (intro conjI)
qed

text \<open>
  The witness for C4: in a world where no request can be built the run stops before the
  first query, and in one where every connection is refused, at the first query; in the
  example world the page for dave is reported and gives nil, and the loop goes on to
  alice.
\<close>

theorem failed_query_witness:
  "callGraylog (exampleWorld\<lparr>newRequest := (\<lambda>r. Some ''invalid URL'')\<rparr>) exampleSettings ''down'' ''A''
      = ([], Inl ''invalid URL'') \<and>
   mainLoop (exampleWorld\<lparr>newRequest := (\<lambda>r. Some ''invalid URL'')\<rparr>) exampleSettings
       [exampleMember '' alice '' ''A'', exampleMember ''bob'' ''B'']
      = ([], Fatal ''invalid URL'') \<and>
   callGraylog (exampleWorld\<lparr>httpGet := (\<lambda>r. Inl ''connection refused'')\<rparr>) exampleSettings ''down'' ''A''
      = ([GraylogGet (graylogRequest (exampleWorld\<lparr>httpGet := (\<lambda>r. Inl ''connection refused'')\<rparr>)
                        exampleSettings ''down'' ''A'')],
         Inl ''connection refused'') \<and>
   mainLoop (exampleWorld\<lparr>httpGet := (\<lambda>r. Inl ''connection refused'')\<rparr>) exampleSettings
       [exampleMember '' alice '' ''A'', exampleMember ''bob'' ''B'']
      = ([GraylogGet (graylogRequest (exampleWorld\<lparr>httpGet := (\<lambda>r. Inl ''connection refused'')\<rparr>)
                        exampleSettings ''down'' ''A'')],
         Fatal ''connection refused'') \<and>
   callGraylog exampleWorld exampleSettings ''up'' ''D''
      = ([GraylogGet (graylogRequest exampleWorld exampleSettings ''up'' ''D''),
          PrintError ''error: invalid character''], Inr None) \<and>
   snd (mainLoop exampleWorld exampleSettings
          [exampleMember ''dave'' ''D'', exampleMember '' alice '' ''A'']) = Done \<and>
   map BandwidthUsagePeriod.Name
     (insertsOf (fst (mainLoop exampleWorld exampleSettings
          [exampleMember ''dave'' ''D'', exampleMember '' alice '' ''A''])))
     = [''alice'']"
proof -
  let ?wr = "exampleWorld\<lparr>newRequest := (\<lambda>r. Some ''invalid URL'')\<rparr>"
  let ?wt = "exampleWorld\<lparr>httpGet := (\<lambda>r. Inl ''connection refused'')\<rparr>"
  let ?alice = "exampleMember '' alice '' ''A''"
  let ?dave = "exampleMember ''dave'' ''D''"
  have dir: "''down'' = ''up'' \<or> ''down'' = ''down''" by simp
  have dir': "''up'' = ''up'' \<or> ''up'' = ''down''" by simp
  note tr = failed_query_fatal_bad_json_reported [OF dir, where w = ?wr and s = exampleSettings
      and key = "''A''" and err = "''invalid URL''" and m = ?alice and pre = "[]"
      and post = "[exampleMember ''bob'' ''B'']"]
  have r1: "callGraylog ?wr exampleSettings ''down'' ''A'' = ([], Inl ''invalid URL'')"
    using tr by simp
  then have "getBandwidthSums ?wr exampleSettings ?alice = ([], Inl ''invalid URL'')"
    using tr by (simp add: exampleMember_simps)
  then have r2: "mainLoop ?wr exampleSettings [?alice, exampleMember ''bob'' ''B'']
      = ([], Fatal ''invalid URL'')"
    using tr by (simp del: mainLoop.simps)
  note tt = failed_query_fatal_bad_json_reported [OF dir, where w = ?wt and s = exampleSettings
      and key = "''A''" and err = "''connection refused''" and m = ?alice and pre = "[]"
      and post = "[exampleMember ''bob'' ''B'']"]
  have t1: "callGraylog ?wt exampleSettings ''down'' ''A''
      = ([GraylogGet (graylogRequest ?wt exampleSettings ''down'' ''A'')], Inl ''connection refused'')"
    using tt by (simp add: exampleWorld_simps)
  then have "getBandwidthSums ?wt exampleSettings ?alice
      = ([GraylogGet (graylogRequest ?wt exampleSettings ''down'' ''A'')], Inl ''connection refused'')"
    using tt by (simp add: exampleMember_simps)
  then have t2: "mainLoop ?wt exampleSettings [?alice, exampleMember ''bob'' ''B'']
      = ([GraylogGet (graylogRequest ?wt exampleSettings ''down'' ''A'')], Fatal ''connection refused'')"
    using tt by (simp del: mainLoop.simps)
  note tj = failed_query_fatal_bad_json_reported [OF dir', where w = exampleWorld
      and s = exampleSettings and key = "''D''" and body = "''<html>Bad Gateway</html>''"
      and e = "''invalid character''" and resSum = None and m = ?dave and ms = "[?alice]"]
  have j1: "callGraylog exampleWorld exampleSettings ''up'' ''D''
      = ([GraylogGet (graylogRequest exampleWorld exampleSettings ''up'' ''D''),
          PrintError ''error: invalid character''], Inr None)"
    using tj by (simp add: exampleWorld_simps exampleWorld_httpGet Replace_examples
        exampleWorld_jsonUnmarshal)
  have none: "snd (callGraylog exampleWorld exampleSettings ''down'' (WGKey (Fields ?dave))) = Inr None"
    "snd (callGraylog exampleWorld exampleSettings ''up'' (WGKey (Fields ?dave))) = Inr None"
    by (simp_all add: exampleMember_simps example_fetch)
  from tj none have go: "mainLoop exampleWorld exampleSettings (?dave # [?alice]) =
      (fst (callGraylog exampleWorld exampleSettings ''down'' (WGKey (Fields ?dave))) @
       fst (callGraylog exampleWorld exampleSettings ''up'' (WGKey (Fields ?dave))) @
       fst (mainLoop exampleWorld exampleSettings [?alice]),
       snd (mainLoop exampleWorld exampleSettings [?alice]))"
    by blast
  have j2: "snd (mainLoop exampleWorld exampleSettings [?dave, ?alice]) = Done"
    by (simp only: go snd_conv mainLoop_example)
  have "insertsOf (fst (mainLoop exampleWorld exampleSettings [?alice])) =
      concat (map (\<lambda>m. insertsOf (fst (loopBody exampleWorld exampleSettings m))) [?alice])"
    by (rule mainLoop_Done_inserts) (rule mainLoop_example)
  then have "map BandwidthUsagePeriod.Name
      (insertsOf (fst (mainLoop exampleWorld exampleSettings [?alice]))) = [''alice'']"
    by (simp add: example_inserts del: mainLoop.simps)
  then have j3: "map BandwidthUsagePeriod.Name
     (insertsOf (fst (mainLoop exampleWorld exampleSettings [?dave, ?alice]))) = [''alice'']"
    by (simp only: go fst_conv insertsOf_append insertsOf_callGraylog append.simps)
  from r1 r2 t1 t2 j1 j2 j3 show ?thesis by (intro conjI)
qed

subsection \<open>The aggregation is a function of the two sums\<close>

text \<open>
  Claim C9: the aggregation is a pure, deterministic function of its two optional
  inputs. Whatever the world, the settings and the member, when the two queries return,
  the triple \<open>getBandwidthSums\<close> returns is \<open>bandwidthSums\<close> of the two fetched sums, so
  two calls that fetched the same pair return the same triple; and aggregating the
  returned \<open>Up\<close> and \<open>Down\<close> again gives the same triple.
\<close>

theorem aggregation_depends_on_sums_only:
  "(snd (getBandwidthSums w s m) = Inr r \<and> snd (getBandwidthSums w' s' m') = Inr r' \<and>
    snd (callGraylog w s ''up'' (WGKey (Fields m))) =
      snd (callGraylog w' s' ''up'' (WGKey (Fields m'))) \<and>
    snd (callGraylog w s ''down'' (WGKey (Fields m))) =
      snd (callGraylog w' s' ''down'' (WGKey (Fields m')))
      \<longrightarrow> r = r') \<and>
   (snd (callGraylog w s ''down'' (WGKey (Fields m))) = Inr down \<and>
    snd (callGraylog w s ''up'' (WGKey (Fields m))) = Inr up
      \<longrightarrow> snd (getBandwidthSums w s m) = Inr (bandwidthSums up down)) \<and>
   bandwidthSums (fst (bandwidthSums up down)) (fst (snd (bandwidthSums up down)))
     = bandwidthSums up down"
proof -
  have a: "snd (getBandwidthSums w s m) = Inr r \<and> snd (getBandwidthSums w' s' m') = Inr r' \<and>
    snd (callGraylog w s ''up'' (WGKey (Fields m))) =
      snd (callGraylog w' s' ''up'' (WGKey (Fields m'))) \<and>
    snd (callGraylog w s ''down'' (WGKey (Fields m))) =
      snd (callGraylog w' s' ''down'' (WGKey (Fields m')))
      \<longrightarrow> r = r'"
  proof (intro impI, elim conjE)
    assume r: "snd (getBandwidthSums w s m) = Inr r"
      and r': "snd (getBandwidthSums w' s' m') = Inr r'"
      and u: "snd (callGraylog w s ''up'' (WGKey (Fields m))) =
        snd (callGraylog w' s' ''up'' (WGKey (Fields m')))"
      and d: "snd (callGraylog w s ''down'' (WGKey (Fields m))) =
        snd (callGraylog w' s' ''down'' (WGKey (Fields m')))"
    from r obtain up1 down1 where
      "snd (callGraylog w s ''down'' (WGKey (Fields m))) = Inr down1"
      "snd (callGraylog w s ''up'' (WGKey (Fields m))) = Inr up1"
      "r = bandwidthSums up1 down1" by (rule getBandwidthSums_Inr_D)
    moreover from r' obtain up2 down2 where
      "snd (callGraylog w' s' ''down'' (WGKey (Fields m'))) = Inr down2"
      "snd (callGraylog w' s' ''up'' (WGKey (Fields m'))) = Inr up2"
      "r' = bandwidthSums up2 down2" by (rule getBandwidthSums_Inr_D)
    ultimately show "r = r'" using u d by simp
  qed
  have b: "snd (callGraylog w s ''down'' (WGKey (Fields m))) = Inr down \<and>
    snd (callGraylog w s ''up'' (WGKey (Fields m))) = Inr up
      \<longrightarrow> snd (getBandwidthSums w s m) = Inr (bandwidthSums up down)"
    by (auto simp: getBandwidthSums_fetch)
  have c: "bandwidthSums (fst (bandwidthSums up down)) (fst (snd (bandwidthSums up down)))
     = bandwidthSums up down"
    by (cases up; cases down) (simp_all add: bandwidthSums_cases)
  from a b c show ?thesis by (intro conjI)
qed

text \<open>
  The witness for C9: carol's sums fetched under two different settings and member
  records give the same triple.
\<close>

theorem aggregation_depends_on_sums_only_witness:
  "snd (getBandwidthSums exampleWorld exampleSettings (exampleMember ''carol'' ''C''))
     = Inr (Some (Finite 0), Some (Finite 0), Some (Finite 0)) \<and>
   snd (getBandwidthSums exampleWorld
          (exampleSettings\<lparr>Settings.From := civil 2024 1 2, Settings.Duration := 0\<rparr>)
          (exampleMember ''carol again'' ''C''))
     = Inr (Some (Finite 0), Some (Finite 0), Some (Finite 0))"
proof -
  let ?s' = "exampleSettings\<lparr>Settings.From := civil 2024 1 2, Settings.Duration := 0\<rparr>"
  note t = aggregation_depends_on_sums_only [of exampleWorld exampleSettings
      "exampleMember ''carol'' ''C''" _ exampleWorld ?s' "exampleMember ''carol again'' ''C''" _
      "Some (Finite 0)" "Some (Finite 0)"]
  have a: "snd (getBandwidthSums exampleWorld exampleSettings (exampleMember ''carol'' ''C''))
     = Inr (Some (Finite 0), Some (Finite 0), Some (Finite 0))"
    using t by (simp add: exampleMember_simps example_fetch bandwidthSums_cases round64_0)
  obtain r' where r': "snd (getBandwidthSums exampleWorld ?s' (exampleMember ''carol again'' ''C''))
      = Inr r'"
    by (simp add: getBandwidthSums_def exampleMember_simps example_fetch)
  from t [of "(Some (Finite 0), Some (Finite 0), Some (Finite 0))" r'] a r'
  have "(Some (Finite 0), Some (Finite 0), Some (Finite 0)) = r'"
    by (simp add: exampleMember_simps example_fetch)
  with a r' show ?thesis by simp
qed

subsection \<open>No argument\<close>

text \<open>
  Claim C10: with fewer than two entries in \<open>os.Args\<close> the program reads \<open>os.Args[1]\<close>
  and panics with an index out of range, having printed no usage message and done
  nothing else; an exit with the usage message happens only with at least one argument,
  and it does happen with one argument that is not a duration.
\<close>

theorem no_argument_panics:
  "(length args < 2 \<longrightarrow> main w args = ([], PanicIndexOutOfRange 1 (length args))) \<and>
   (usageExit (snd (main w args)) \<longrightarrow> 2 \<le> length args) \<and>
   (length args = 2 \<and> snd (parseDuration w (args ! 1)) = Some e \<longrightarrow>
      main w args = ([], Fatal (usageMessage e)))"
proof -
  have a: "length args < 2 \<longrightarrow> main w args = ([], PanicIndexOutOfRange 1 (length args))"
    by (simp add: configure_short main_not_configured)
  have b: "usageExit (snd (main w args)) \<longrightarrow> 2 \<le> length args"
  proof (cases "length args < 2")
    case True
    with a show ?thesis by simp
  next
    case False
    then show ?thesis by simp
  qed
  have c: "length args = 2 \<and> snd (parseDuration w (args ! 1)) = Some e \<longrightarrow>
      main w args = ([], Fatal (usageMessage e))"
    using configure_usage [of args w e] by (auto simp: main_not_configured)
  from a b c show ?thesis by (intro conjI)
qed

text \<open>
  The witness for C10: \<open>stat-collector\<close> alone, and an empty argument list, panic;
  \<open>stat-collector abc\<close> exits with the usage message.
\<close>

theorem no_argument_panics_witness:
  "main exampleWorld [''stat-collector''] = ([], PanicIndexOutOfRange 1 1) \<and>
   main exampleWorld [] = ([], PanicIndexOutOfRange 1 0) \<and>
   usageExit (snd (main exampleWorld [''stat-collector'', ''abc''])) \<and>
   main exampleWorld [''stat-collector'', ''abc''] =
     ([], Fatal (usageMessage (''time: invalid duration '' @ quote @ ''abc'' @ quote)))"
proof -
  have a: "main exampleWorld [''stat-collector''] = ([], PanicIndexOutOfRange 1 1)"
    using no_argument_panics [of "[''stat-collector'']" exampleWorld] by simp
  have b: "main exampleWorld [] = ([], PanicIndexOutOfRange 1 0)"
    using no_argument_panics [of "[]" exampleWorld] by simp
  have c: "main exampleWorld [''stat-collector'', ''abc''] =
     ([], Fatal (usageMessage (''time: invalid duration '' @ quote @ ''abc'' @ quote)))"
    using no_argument_panics [of "[''stat-collector'', ''abc'']" exampleWorld
        "''time: invalid duration '' @ quote @ ''abc'' @ quote"]
    by (simp add: exampleWorld_parse)
  have d: "usageExit (snd (main exampleWorld [''stat-collector'', ''abc'']))"
    by (simp only: c snd_conv usageExit_usageMessage)
  from a b d c show ?thesis by (intro conjI)
qed

subsection \<open>A duration that does not parse\<close>

text \<open>
  Claim C1 does not hold of the code when an end date follows: with at least three
  entries in \<open>os.Args\<close>, a duration that \<open>time.ParseDuration\<close> rejects and an end date
  that \<open>time.Parse\<close> accepts, the second assignment to \<open>err\<close> clears the error of the
  first; there is no usage message, the settings are built with the duration
  \<open>time.ParseDuration\<close> returned with its error, and the run goes on, printing the
  settings first.
\<close>

theorem duration_error_overwritten_by_end_date:
  assumes "3 \<le> length args"
    and "snd (parseDuration w (args ! 1)) = Some e"
    and "snd (parseTime w ''2006-01-2T15:04:05'' (args ! 2 @ ''T00:00:00'')) = None"
  shows "\<exists>s. configure w args = Inr s \<and>
             Settings.Duration s = fst (parseDuration w (args ! 1)) \<and>
             main w args = collect w s \<and>
             hd (fst (main w args)) = PrintSettings s"
proof -
  have "\<exists>s. configure w args = Inr s"
    using assms(1,3) by (intro configure_ok) auto
  then obtain s where s: "configure w args = Inr s" ..
  show ?thesis
    using s configure_Inr_D(2) [OF s] main_configured [OF s] by (simp add: collect_hd)
qed

text \<open>
  The witness for C1, the run of \<open>stat-collector abc 2024-01-02\<close> in the example
  world: \<open>abc\<close> is no duration, and the program contacts the services, stores two
  periods over an empty window and ends normally.
\<close>

theorem duration_error_overwritten_witness:
  "snd (parseDuration exampleWorld ''abc'') = Some (''time: invalid duration '' @ quote @ ''abc'' @ quote) \<and>
   configure exampleWorld [''stat-collector'', ''abc'', ''2024-01-02'']
     = Inr (exampleSettings\<lparr>Settings.From := civil 2024 1 2, Settings.Duration := 0\<rparr>) \<and>
   snd (main exampleWorld [''stat-collector'', ''abc'', ''2024-01-02'']) = Done \<and>
   list_ex isNetwork (fst (main exampleWorld [''stat-collector'', ''abc'', ''2024-01-02''])) \<and>
   map BandwidthUsagePeriod.Name
     (insertsOf (fst (main exampleWorld [''stat-collector'', ''abc'', ''2024-01-02'']))) =
     [''alice'', ''carol'']"
proof -
  let ?args = "[''stat-collector'', ''abc'', ''2024-01-02'']"
  have l: "3 \<le> length ?args" by simp
  have d: "snd (parseDuration exampleWorld (?args ! 1)) =
      Some (''time: invalid duration '' @ quote @ ''abc'' @ quote)"
    by (simp add: exampleWorld_parse)
  have t: "snd (parseTime exampleWorld ''2006-01-2T15:04:05'' (?args ! 2 @ ''T00:00:00'')) = None"
    by (simp add: exampleWorld_parse)
  from duration_error_overwritten_by_end_date [OF l d t]
  obtain s where s: "configure exampleWorld ?args = Inr s"
    and m: "main exampleWorld ?args = collect exampleWorld s" by blast
  from s have "s = exampleSettings\<lparr>Settings.From := civil 2024 1 2, Settings.Duration := 0\<rparr>"
    by (simp add: example_configure_abc)
  with m have m': "main exampleWorld ?args =
      collect exampleWorld (exampleSettings\<lparr>Settings.From := civil 2024 1 2, Settings.Duration := 0\<rparr>)"
    by simp
  have a: "snd (parseDuration exampleWorld ''abc'') =
      Some (''time: invalid duration '' @ quote @ ''abc'' @ quote)"
    by (simp add: exampleWorld_parse)
  have b: "snd (main exampleWorld ?args) = Done"
    by (simp only: m' collect_example snd_conv)
  have c: "list_ex isNetwork (fst (main exampleWorld ?args))"
    by (simp only: m' collect_example_network)
  have e: "map BandwidthUsagePeriod.Name (insertsOf (fst (main exampleWorld ?args))) =
     [''alice'', ''carol'']"
    by (simp only: m' collect_example_inserts)
  from a example_configure_abc b c e show ?thesis by (intro conjI)
qed

subsection \<open>The window\<close>

text \<open>
  Claim C5, as stated, fails for one duration: \<open>-2562047h47m16.854775808s\<close> is the
  least int64, its negation in \<open>to.Add(-duration)\<close> wraps to itself, and \<open>From\<close> is
  292 years before \<open>To\<close> where \<open>To\<close> minus the duration is 292 years after.
\<close>

theorem min_duration_window_is_not_end_minus_duration:
  "configure exampleWorld [''stat-collector'', ''-2562047h47m16.854775808s'', ''2024-01-02'']
     = Inr (exampleSettings\<lparr>Settings.From := civil 2024 1 2 - 9223372036854775808,
                             Settings.Duration := - 9223372036854775808\<rparr>) \<and>
   Settings.From (exampleSettings\<lparr>Settings.From := civil 2024 1 2 - 9223372036854775808,
                             Settings.Duration := - 9223372036854775808\<rparr>)
     \<noteq> Settings.To (exampleSettings\<lparr>Settings.From := civil 2024 1 2 - 9223372036854775808,
                             Settings.Duration := - 9223372036854775808\<rparr>)
        - sint (Settings.Duration (exampleSettings\<lparr>Settings.From := civil 2024 1 2 - 9223372036854775808,
                             Settings.Duration := - 9223372036854775808\<rparr>))"
  by (simp add: example_configure_min) (simp add: exampleSettings_def)

text \<open>
  Claim C5, amended: for every duration that parses, other than the least int64, and
  every end time, \<open>To\<close> is the end time and \<open>From\<close> is \<open>To\<close> minus the duration. The end
  time is the current time when \<open>os.Args\<close> has two entries; otherwise it is what
  \<open>time.Parse\<close> gives for the third entry followed by \<open>T00:00:00\<close>, midnight of that
  date.
\<close>

theorem window_from_duration_and_end:
  assumes "2 \<le> length args"
    and "parseDuration w (args ! 1) = (d, None)"
    and "d \<noteq> - 9223372036854775808"
    and "if length args = 2 then t = now w
         else parseTime w ''2006-01-2T15:04:05'' (args ! 2 @ ''T00:00:00'') = (t, None)"
  shows "\<exists>s. configure w args = Inr s \<and> Settings.To s = t \<and>
             Settings.From s = t - sint d \<and> Settings.Duration s = d"
proof -
  have "\<exists>s. configure w args = Inr s"
    using assms(1,2,4) by (intro configure_ok) (auto split: if_splits)
  then obtain s where s: "configure w args = Inr s" ..
  have dur: "Settings.Duration s = d" using configure_Inr_D(2) [OF s] assms(2) by simp
  have to: "Settings.To s = t" using configure_Inr_D(4) [OF s] assms(4) by (auto split: if_splits)
  have "Settings.From s = t + sint (- d)"
    using configure_Inr_D(3) [OF s] by (simp add: dur to Add_def)
  then have "Settings.From s = t - sint d" by (simp add: sint_uminus_64 [OF assms(3)])
  with s dur to show ?thesis by blast
qed

text \<open>
  The witness for C5: \<open>stat-collector 24h 2024-01-02\<close> gives the window from
  2024-01-01T00:00:00 to 2024-01-02T00:00:00.
\<close>

theorem window_from_duration_and_end_witness:
  "configure exampleWorld [''stat-collector'', ''24h'', ''2024-01-02''] = Inr exampleSettings \<and>
   Settings.To exampleSettings = civil 2024 1 2 \<and>
   Settings.From exampleSettings = civil 2024 1 1 \<and>
   Settings.From exampleSettings = civil 2024 1 2 - sint (86400000000000 :: 64 word) \<and>
   Settings.Duration exampleSettings = 86400000000000"
proof -
  let ?args = "[''stat-collector'', ''24h'', ''2024-01-02'']"
  have l: "2 \<le> length ?args" by simp
  have d: "parseDuration exampleWorld (?args ! 1) = (86400000000000, None)"
    by (simp add: exampleWorld_parse)
  have n: "(86400000000000 :: 64 word) \<noteq> - 9223372036854775808" by simp
  have t: "if length ?args = 2 then civil 2024 1 2 = now exampleWorld
         else parseTime exampleWorld ''2006-01-2T15:04:05'' (?args ! 2 @ ''T00:00:00'')
                = (civil 2024 1 2, None)"
    by (simp add: exampleWorld_parse)
  from window_from_duration_and_end [OF l d n t]
  obtain s where s: "configure exampleWorld ?args = Inr s"
    and "Settings.To s = civil 2024 1 2"
    and "Settings.From s = civil 2024 1 2 - sint (86400000000000 :: 64 word)"
    and "Settings.Duration s = 86400000000000" by blast
  moreover from s have "s = exampleSettings" by (simp add: example_configure)
  moreover have "Settings.From exampleSettings = civil 2024 1 1" by (simp add: exampleSettings_def)
  ultimately show ?thesis by simp
qed

text \<open>
  Claim C6, as stated, fails: \<open>stat-collector -1h\<close> builds a window whose duration is
  negative; nothing in main.go checks the sign.
\<close>

theorem negative_duration_window:
  "configure exampleWorld [''stat-collector'', ''-1h'']
     = Inr (exampleSettings\<lparr>Settings.From := civil 2024 3 1 + 48896 * 1000000000,
                             Settings.To := civil 2024 3 1 + 45296 * 1000000000,
                             Settings.Duration := - 3600000000000\<rparr>) \<and>
   \<not> 0 < sint (Settings.Duration
                (exampleSettings\<lparr>Settings.From := civil 2024 3 1 + 48896 * 1000000000,
                                  Settings.To := civil 2024 3 1 + 45296 * 1000000000,
                                  Settings.Duration := - 3600000000000\<rparr>))"
  by (simp add: example_configure_neg)

text \<open>
  Claim C6, amended: the window of a run that gets its settings satisfies
  \<open>To = From + Duration\<close>, unless the duration is the least int64; the duration may be
  zero or negative. The settings are built once, and the whole run works from them:
  every Graylog request carries their \<open>From\<close> and \<open>To\<close> as \<open>Format\<close> writes them with
  the layout \<open>2006-01-2T15:04:05.000Z\<close> (the digits of the wall clock down to the
  millisecond and the letter Z), and every period carries their \<open>From\<close>, \<open>To\<close> and
  \<open>Duration\<close> themselves.
\<close>

theorem window_invariant_and_use:
  assumes "configure w args = Inr s"
  shows "(Settings.Duration s \<noteq> - 9223372036854775808 \<longrightarrow>
            Settings.To s = Add (Settings.From s) (Settings.Duration s)) \<and>
         main w args = collect w s \<and>
         list_all (usesWindow w s) (fst (main w args))"
proof -
  have "Settings.To s = Add (Settings.From s) (Settings.Duration s)"
    if "Settings.Duration s \<noteq> - 9223372036854775808"
    using configure_Inr_D(3) [OF assms] sint_uminus_64 [OF that] by (simp add: Add_def)
  then show ?thesis
    using main_configured [OF assms] collect_usesWindow [of w s] by simp
qed

text \<open>
  The witness for C6: the run of \<open>stat-collector 24h 2024-01-02\<close>, whose requests ask
  for \<open>2024-01-1T00:00:00.000Z\<close> to \<open>2024-01-2T00:00:00.000Z\<close>.
\<close>

theorem window_invariant_witness:
  "configure exampleWorld [''stat-collector'', ''24h'', ''2024-01-02''] = Inr exampleSettings \<and>
   Settings.Duration exampleSettings \<noteq> - 9223372036854775808 \<and>
   Settings.To exampleSettings = Add (Settings.From exampleSettings) (Settings.Duration exampleSettings) \<and>
   list_all (usesWindow exampleWorld exampleSettings)
     (fst (main exampleWorld [''stat-collector'', ''24h'', ''2024-01-02''])) \<and>
   req_from (graylogRequest exampleWorld exampleSettings ''down'' ''A'') = ''2024-01-1T00:00:00.000Z'' \<and>
   req_to (graylogRequest exampleWorld exampleSettings ''down'' ''A'') = ''2024-01-2T00:00:00.000Z''"
proof -
  have n: "Settings.Duration exampleSettings \<noteq> - 9223372036854775808"
    by (simp add: exampleSettings_def)
  note t = window_invariant_and_use [OF example_configure]
  from t n have inv: "Settings.To exampleSettings =
      Add (Settings.From exampleSettings) (Settings.Duration exampleSettings)" by blast
  from t have use: "list_all (usesWindow exampleWorld exampleSettings)
     (fst (main exampleWorld [''stat-collector'', ''24h'', ''2024-01-02'']))" by blast
  have f: "req_from (graylogRequest exampleWorld exampleSettings ''down'' ''A'')
      = ''2024-01-1T00:00:00.000Z''"
    by (simp add: graylogRequest_def exampleSettings_def example_formatTime)
  have g: "req_to (graylogRequest exampleWorld exampleSettings ''down'' ''A'')
      = ''2024-01-2T00:00:00.000Z''"
    by (simp add: graylogRequest_def exampleSettings_def example_formatTime)
  from example_configure n inv use f g show ?thesis by (intro conjI)
qed

end
